theory Spec2Isabelle
  imports Complex_Main
begin

text \<open>
  A model of the service in \<^verbatim>\<open>main.py\<close>: one endpoint, \<^verbatim>\<open>POST /calculate\<close>, which
  validates three form fields against the schema \<^verbatim>\<open>CalciumCorrectionInput\<close> and returns
  \<^verbatim>\<open>round(measured_calcium + 0.8 * (normal_albumin - serum_albumin), 1)\<close>.

  The fields and the result are Python floats, so the arithmetic of the handler is the
  arithmetic of IEEE 754 binary64 numbers. It is modelled exactly: a finite float is the
  rational number it denotes, and every operation rounds the exact result to the nearest
  binary64 number, ties to the even significand.
\<close>

section \<open>IEEE 754 binary64 values and Python's float operations\<close>

subsection \<open>Rounding a rational number to binary64\<close>

text \<open>
  \<open>log2floor n\<close> is the position of the leading bit of \<open>n > 0\<close>, and \<open>binade a\<close> is the
  exponent \<open>e\<close> with \<open>2\<^sup>e \<le> a < 2\<^sup>e\<^sup>+\<^sup>1\<close> of a positive rational \<open>a\<close> (lemmas
  \<open>binade_bounds\<close> and \<open>binade_unique\<close> below).
\<close>

fun log2floor :: "nat \<Rightarrow> nat" where
  "log2floor n = (if n < 2 then 0 else Suc (log2floor (n div 2)))"

declare log2floor.simps [simp del]

definition binade :: "rat \<Rightarrow> int" where
  "binade a =
     (if 1 \<le> a then int (log2floor (nat \<lfloor>a\<rfloor>))
      else (let k = int (log2floor (nat \<lfloor>1 / a\<rfloor>))
            in if a * 2 powi k = 1 then - k else - k - 1))"

text \<open>Rounding to the nearest integer, a tie going to the even neighbour.\<close>

definition round_half_even :: "rat \<Rightarrow> int" where
  "round_half_even q =
     (let f = \<lfloor>q\<rfloor>; d = q - of_int f
      in if d < 1 / 2 then f else if 1 / 2 < d then f + 1
         else if even f then f else f + 1)"

text \<open>
  A binary64 number has 53 significant bits and a least exponent of \<open>-1022\<close>: in the binade
  \<open>e\<close> neighbouring floats are \<open>2\<^sup>e\<^sup>-\<^sup>5\<^sup>2\<close> apart, and below \<open>2\<^sup>-\<^sup>1\<^sup>0\<^sup>2\<^sup>2\<close> (the
  subnormal range) they are \<open>2\<^sup>-\<^sup>1\<^sup>0\<^sup>7\<^sup>4\<close> apart. \<open>round_nearest_even\<close> rounds a rational
  to the nearest multiple of that spacing, ties to even, with no bound on the exponent yet.
\<close>

definition ulp_exp :: "rat \<Rightarrow> int" where
  "ulp_exp a = max (binade a) (- 1022) - 52"

definition round_nearest_even :: "rat \<Rightarrow> rat" where
  "round_nearest_even x =
     (if x = 0 then 0
      else (let u = 2 powi ulp_exp \<bar>x\<bar>
            in sgn x * of_int (round_half_even (\<bar>x\<bar> / u)) * u))"

text \<open>
  A Python float is a finite number, an infinity or a NaN. A finite float is represented by
  its exact rational value (the two zeros of IEEE 754 are not told apart: the endpoint never
  divides, so the sign of a zero cannot be observed). \<open>to_double\<close> is the correctly rounded
  conversion: a value that rounds to \<open>2\<^sup>1\<^sup>0\<^sup>2\<^sup>4\<close> or beyond overflows to an infinity.
\<close>

datatype pyfloat = Finite rat | PInf | NInf | NaN

definition to_double :: "rat \<Rightarrow> pyfloat" where
  "to_double x =
     (let r = round_nearest_even x
      in if 2 ^ 1024 \<le> r then PInf else if r \<le> - (2 ^ 1024) then NInf else Finite r)"

subsection \<open>Arithmetic, comparison and literals of Python floats\<close>

text \<open>
  A float literal of the source (\<^verbatim>\<open>0.8\<close>, \<^verbatim>\<open>4.0\<close>, \<^verbatim>\<open>5.5\<close>) and a decimal number
  sent in a form are both read as the nearest float. \<open>fadd\<close>, \<open>fsub\<close> and \<open>fmul\<close> are
  Python's \<^verbatim>\<open>+\<close>, \<^verbatim>\<open>-\<close> and \<^verbatim>\<open>*\<close> on floats, which never raise: they round the exact
  result, and overflow gives an infinity. \<open>fle\<close> and \<open>fge\<close> are \<^verbatim>\<open><=\<close> and \<^verbatim>\<open>>=\<close>; every
  comparison with a NaN is false.
\<close>

definition py_literal :: "rat \<Rightarrow> pyfloat" where
  "py_literal q = to_double q"

fun fneg :: "pyfloat \<Rightarrow> pyfloat" where
  "fneg (Finite a) = Finite (- a)"
| "fneg PInf = NInf"
| "fneg NInf = PInf"
| "fneg NaN = NaN"

fun fadd :: "pyfloat \<Rightarrow> pyfloat \<Rightarrow> pyfloat" where
  "fadd NaN _ = NaN"
| "fadd _ NaN = NaN"
| "fadd PInf NInf = NaN"
| "fadd NInf PInf = NaN"
| "fadd PInf _ = PInf"
| "fadd _ PInf = PInf"
| "fadd NInf _ = NInf"
| "fadd _ NInf = NInf"
| "fadd (Finite a) (Finite b) = to_double (a + b)"

definition fsub :: "pyfloat \<Rightarrow> pyfloat \<Rightarrow> pyfloat" where
  "fsub a b = fadd a (fneg b)"

fun fmul :: "pyfloat \<Rightarrow> pyfloat \<Rightarrow> pyfloat" where
  "fmul NaN _ = NaN"
| "fmul _ NaN = NaN"
| "fmul (Finite a) (Finite b) = to_double (a * b)"
| "fmul (Finite a) PInf = (if a = 0 then NaN else if 0 < a then PInf else NInf)"
| "fmul (Finite a) NInf = (if a = 0 then NaN else if 0 < a then NInf else PInf)"
| "fmul PInf (Finite b) = (if b = 0 then NaN else if 0 < b then PInf else NInf)"
| "fmul NInf (Finite b) = (if b = 0 then NaN else if 0 < b then NInf else PInf)"
| "fmul PInf PInf = PInf"
| "fmul PInf NInf = NInf"
| "fmul NInf PInf = NInf"
| "fmul NInf NInf = PInf"

fun fle :: "pyfloat \<Rightarrow> pyfloat \<Rightarrow> bool" where
  "fle NaN _ = False"
| "fle _ NaN = False"
| "fle NInf _ = True"
| "fle _ PInf = True"
| "fle PInf _ = False"
| "fle _ NInf = False"
| "fle (Finite a) (Finite b) = (a \<le> b)"

definition fge :: "pyfloat \<Rightarrow> pyfloat \<Rightarrow> bool" where
  "fge a b = fle b a"

text \<open>
  The errors the endpoint can meet. A \<open>ValidationError\<close> carries one entry for each field
  that failed, with the field's name and the kind of failure (named as pydantic names them).
  \<open>OverflowError\<close> is what Python's \<^verbatim>\<open>round\<close> raises when the rounded value is too large
  for a float.
\<close>

datatype error_type = missing | float_parsing | greater_than_equal | less_than_equal

type_synonym error_detail = "string \<times> error_type"

datatype error = ValidationError "error_detail list" | OverflowError

text \<open>
  Python's \<^verbatim>\<open>round(x, ndigits)\<close> on a float, for \<open>ndigits \<ge> 0\<close>: an infinity or a NaN is
  returned as it is; otherwise the exact binary value of \<open>x\<close> is rounded to \<open>ndigits\<close>
  decimal places, ties to even, and the decimal number obtained is converted back to the
  nearest float. Beyond 323 digits \<open>x\<close> is returned unchanged.
\<close>

definition py_round :: "pyfloat \<Rightarrow> nat \<Rightarrow> error + pyfloat" where
  "py_round v ndigits =
     (case v of
        Finite x \<Rightarrow>
          (if 323 < ndigits then Inr v
           else (case to_double (of_int (round_half_even (x * 10 ^ ndigits)) / 10 ^ ndigits) of
                   Finite r \<Rightarrow> Inr (Finite r)
                 | _ \<Rightarrow> Inl OverflowError))
      | _ \<Rightarrow> Inr v)"

section \<open>The request schema and its validation\<close>

text \<open>
  A form field as the handler's framework sees it: not sent, sent with a text that is not a
  number, or sent with a number, which is then a float (the texts \<^verbatim>\<open>nan\<close> and \<^verbatim>\<open>inf\<close>
  are read as floats too).
\<close>

datatype form_value = Omitted | NonNumeric | Num pyfloat

record form_data =
  form_measured_calcium :: form_value
  form_serum_albumin :: form_value
  form_normal_albumin :: form_value

text \<open>
  The declaration of a float field of \<^verbatim>\<open>CalciumCorrectionInput\<close>:
  \<^verbatim>\<open>Field(ge=..., le=..., default=...)\<close>. The three fields are declared as in the source:
  \<^verbatim>\<open>measured_calcium\<close> with \<^verbatim>\<open>ge=4.0, le=14.0\<close>, \<^verbatim>\<open>serum_albumin\<close> with
  \<^verbatim>\<open>ge=2.0, le=5.5\<close>, both required, and \<^verbatim>\<open>normal_albumin\<close> with
  \<^verbatim>\<open>ge=3.0, le=5.0, default=4.0\<close>.
\<close>

record float_field =
  field_name :: string
  field_ge :: pyfloat
  field_le :: pyfloat
  field_default :: "pyfloat option"

definition measured_calcium_field :: float_field where
  "measured_calcium_field =
     \<lparr>field_name = ''measured_calcium'', field_ge = py_literal 4, field_le = py_literal 14,
      field_default = None\<rparr>"

definition serum_albumin_field :: float_field where
  "serum_albumin_field =
     \<lparr>field_name = ''serum_albumin'', field_ge = py_literal 2, field_le = py_literal (55 / 10),
      field_default = None\<rparr>"

definition normal_albumin_field :: float_field where
  "normal_albumin_field =
     \<lparr>field_name = ''normal_albumin'', field_ge = py_literal 3, field_le = py_literal 5,
      field_default = Some (py_literal 4)\<rparr>"

text \<open>
  Validation of one field. A field that was not sent takes its default, or is reported
  \<open>missing\<close> when it has none; a text that is not a number is reported \<open>float_parsing\<close>;
  a number is checked against \<^verbatim>\<open>le\<close> and then against \<^verbatim>\<open>ge\<close>, each bound included.
\<close>

definition validate_float :: "float_field \<Rightarrow> form_value \<Rightarrow> error_detail + pyfloat" where
  "validate_float fld v =
     (case v of
        Omitted \<Rightarrow>
          (case field_default fld of
             None \<Rightarrow> Inl (field_name fld, missing)
           | Some d \<Rightarrow> Inr d)
      | NonNumeric \<Rightarrow> Inl (field_name fld, float_parsing)
      | Num x \<Rightarrow>
          (if \<not> fle x (field_le fld) then Inl (field_name fld, less_than_equal)
           else if \<not> fge x (field_ge fld) then Inl (field_name fld, greater_than_equal)
           else Inr x))"

record CalciumCorrectionInput =
  measured_calcium :: pyfloat
  serum_albumin :: pyfloat
  normal_albumin :: pyfloat

record CalciumCorrectionOutput =
  corrected_calcium :: pyfloat

text \<open>
  Validation of the whole form: every field is validated, and the errors of all fields are
  reported together, in the order of the fields.
\<close>

fun errors_of :: "error_detail + pyfloat \<Rightarrow> error_detail list" where
  "errors_of (Inl e) = [e]"
| "errors_of (Inr _) = []"

definition validate_input :: "form_data \<Rightarrow> error + CalciumCorrectionInput" where
  "validate_input f =
     (let m = validate_float measured_calcium_field (form_measured_calcium f);
          s = validate_float serum_albumin_field (form_serum_albumin f);
          n = validate_float normal_albumin_field (form_normal_albumin f)
      in case (m, s, n) of
           (Inr mv, Inr sv, Inr nv) \<Rightarrow>
             Inr \<lparr>measured_calcium = mv, serum_albumin = sv, normal_albumin = nv\<rparr>
         | _ \<Rightarrow> Inl (ValidationError (errors_of m @ errors_of s @ errors_of n)))"

section \<open>The endpoint\<close>

text \<open>
  The handler \<^verbatim>\<open>calculate_corrected_calcium\<close>. Its first statement evaluates the formula
  \<^verbatim>\<open>data.measured_calcium + 0.8 * (data.normal_albumin - data.serum_albumin)\<close>, its second
  rounds the value to one decimal place, and the rounded value is returned in a
  \<^verbatim>\<open>CalciumCorrectionOutput\<close>.
\<close>

definition corrected_calcium_formula :: "CalciumCorrectionInput \<Rightarrow> pyfloat" where
  "corrected_calcium_formula data =
     fadd (measured_calcium data)
       (fmul (py_literal (8 / 10)) (fsub (normal_albumin data) (serum_albumin data)))"

definition calculate_corrected_calcium ::
  "CalciumCorrectionInput \<Rightarrow> error + CalciumCorrectionOutput" where
  "calculate_corrected_calcium data =
     (let corrected = corrected_calcium_formula data
      in case py_round corrected 1 of
           Inl e \<Rightarrow> Inl e
         | Inr r \<Rightarrow> Inr \<lparr>corrected_calcium = r\<rparr>)"

text \<open>
  The route \<^verbatim>\<open>POST /calculate\<close>: the form is validated against the schema, and the handler
  runs only on a form that passed.
\<close>

definition post_calculate :: "form_data \<Rightarrow> error + CalciumCorrectionOutput" where
  "post_calculate f =
     (case validate_input f of
        Inl e \<Rightarrow> Inl e
      | Inr data \<Rightarrow> calculate_corrected_calcium data)"

section \<open>Vocabulary of the specification\<close>

text \<open>
  The words of the specification, to compare the code with. A field value is in a closed
  range when it is a finite number between the bounds, the bounds included; a form is
  acceptable when measured calcium is in \<open>[4.0, 14.0]\<close>, serum albumin in \<open>[2.0, 5.5]\<close> and
  normal albumin is absent or in \<open>[3.0, 5.0]\<close>. A request is accepted when it is answered
  with a result and rejected when it is answered with a \<open>ValidationError\<close>.
\<close>

definition in_closed_range :: "rat \<Rightarrow> rat \<Rightarrow> form_value \<Rightarrow> bool" where
  "in_closed_range lo hi v = (case v of Num (Finite x) \<Rightarrow> lo \<le> x \<and> x \<le> hi | _ \<Rightarrow> False)"

definition acceptable_form :: "form_data \<Rightarrow> bool" where
  "acceptable_form f =
     (in_closed_range 4 14 (form_measured_calcium f) \<and>
      in_closed_range 2 (55 / 10) (form_serum_albumin f) \<and>
      (form_normal_albumin f = Omitted \<or> in_closed_range 3 5 (form_normal_albumin f)))"

definition accepted :: "form_data \<Rightarrow> bool" where
  "accepted f = (case post_calculate f of Inr _ \<Rightarrow> True | Inl _ \<Rightarrow> False)"

definition rejected :: "form_data \<Rightarrow> bool" where
  "rejected f = (case post_calculate f of Inl (ValidationError _) \<Rightarrow> True | _ \<Rightarrow> False)"

text \<open>
  The formula of the specification in exact arithmetic, and the two ways of rounding a tie
  that the specification leaves open; \<open>round_half_even\<close> above is the first, and
  \<open>round_half_away\<close> is round-half-away-from-zero. A number has exactly one fractional
  digit when ten times the number is an integer.
\<close>

definition exact_formula :: "rat \<Rightarrow> rat \<Rightarrow> rat \<Rightarrow> rat" where
  "exact_formula m s n = m + 8 / 10 * (n - s)"

definition round_half_away :: "rat \<Rightarrow> int" where
  "round_half_away q = (if 0 \<le> q then \<lfloor>q + 1 / 2\<rfloor> else - \<lfloor>- q + 1 / 2\<rfloor>)"

definition exactly_one_decimal :: "rat \<Rightarrow> bool" where
  "exactly_one_decimal x = (of_int \<lfloor>x * 10\<rfloor> = x * 10)"

section \<open>Properties of the rounding functions\<close>

subsection \<open>Powers of two and binades\<close>

lemma log2floor_bounds: "0 < n \<Longrightarrow> 2 ^ log2floor n \<le> n \<and> n < 2 ^ Suc (log2floor n)"
proof (induction n rule: log2floor.induct)
  case (1 n)
  show ?case
  proof (cases "n < 2")
    case True
    with "1.prems" have "n = 1" by simp
    then show ?thesis by (simp add: log2floor.simps)
  next
    case False
    then have pos: "0 < n div 2" by simp
    from "1.IH" [OF False pos]
    have lo: "2 ^ log2floor (n div 2) \<le> n div 2" and hi: "n div 2 < 2 ^ Suc (log2floor (n div 2))"
      by simp_all
    have eq: "log2floor n = Suc (log2floor (n div 2))"
      using False by (subst log2floor.simps) simp
    from lo have "2 * 2 ^ log2floor (n div 2) \<le> n" by linarith
    moreover from hi have "n < 2 * 2 ^ Suc (log2floor (n div 2))" by linarith
    ultimately show ?thesis by (simp add: eq)
  qed
qed

lemma pow2_pos [simp]: "0 < (2::rat) powi e"
  by (simp add: zero_less_power_int)

lemma pow2_add: "(2::rat) powi (a + b) = 2 powi a * 2 powi b"
  by (simp add: power_int_add)

lemma pow2_less_iff [simp]: "(2::rat) powi a < 2 powi b \<longleftrightarrow> a < b"
proof
  assume "(2::rat) powi a < 2 powi b"
  show "a < b"
  proof (rule ccontr)
    assume "\<not> a < b"
    then have "b \<le> a" by simp
    then have "(2::rat) powi b \<le> 2 powi a" by (rule power_int_increasing) simp
    with \<open>(2::rat) powi a < 2 powi b\<close> show False by simp
  qed
next
  assume "a < b"
  then show "(2::rat) powi a < 2 powi b" by (rule power_int_strict_increasing) simp
qed

lemma pow2_le_iff [simp]: "(2::rat) powi a \<le> 2 powi b \<longleftrightarrow> a \<le> b"
  using pow2_less_iff [of b a] by (simp only: not_less [symmetric])

lemma pow2_neg_nat: "(2::rat) powi (- int k) = 1 / 2 ^ k"
  by (simp add: power_int_minus_divide)

lemma pow2_Suc: "(2::rat) powi (e + 1) = 2 * 2 powi e"
  by (simp add: pow2_add)

lemma pow2_pred: "(2::rat) powi (e - 1) = 2 powi e / 2"
  using pow2_Suc [of "e - 1"] by simp

lemma floor_log2_bounds:
  fixes b :: rat
  assumes "1 \<le> b"
  shows "2 ^ log2floor (nat \<lfloor>b\<rfloor>) \<le> b" and "b < 2 ^ Suc (log2floor (nat \<lfloor>b\<rfloor>))"
proof -
  let ?n = "nat \<lfloor>b\<rfloor>"
  let ?k = "log2floor ?n"
  from assms(1) have fl: "1 \<le> \<lfloor>b\<rfloor>" by simp
  then have pos: "0 < ?n" by simp
  from log2floor_bounds [OF pos] have lo: "2 ^ ?k \<le> ?n" and hi: "?n < 2 ^ Suc ?k"
    by simp_all
  have nb: "(of_nat ?n :: rat) = of_int \<lfloor>b\<rfloor>" using fl by simp
  from lo have "(of_nat (2 ^ ?k) :: rat) \<le> of_nat ?n" by (simp only: of_nat_le_iff)
  then have "(2 ^ ?k :: rat) \<le> of_int \<lfloor>b\<rfloor>" by (simp add: nb)
  also have "\<dots> \<le> b" by simp
  finally show "2 ^ ?k \<le> b" .
  from hi have "?n + 1 \<le> 2 ^ Suc ?k" by simp
  then have "(of_nat (?n + 1) :: rat) \<le> of_nat (2 ^ Suc ?k)" by (simp only: of_nat_le_iff)
  then have "of_int \<lfloor>b\<rfloor> + 1 \<le> (2 ^ Suc ?k :: rat)" using nb by simp
  moreover have "b < of_int \<lfloor>b\<rfloor> + 1" by linarith
  ultimately show "b < 2 ^ Suc ?k" by linarith
qed

lemma binade_ge1:
  assumes "1 \<le> a"
  shows "2 powi binade a \<le> a \<and> a < 2 powi (binade a + 1)"
proof -
  let ?k = "log2floor (nat \<lfloor>a\<rfloor>)"
  have b: "binade a = int ?k" using assms by (simp add: binade_def)
  from floor_log2_bounds [OF assms] have "2 ^ ?k \<le> a" "a < 2 ^ Suc ?k" .
  then show ?thesis by (simp add: b pow2_Suc)
qed

lemma binade_lt1:
  assumes "0 < a" and "a < 1"
  shows "2 powi binade a \<le> a \<and> a < 2 powi (binade a + 1)"
proof -
  define k where "k = log2floor (nat \<lfloor>1 / a\<rfloor>)"
  from assms have b1: "1 \<le> 1 / a" by simp
  from floor_log2_bounds [OF b1] have lo: "2 ^ k \<le> 1 / a" and hi: "1 / a < 2 ^ Suc k"
    by (simp_all add: k_def)
  have k2: "(0::rat) < 2 ^ k" by simp
  from lo assms(1) have up: "a * 2 ^ k \<le> 1"
    by (simp add: pos_le_divide_eq mult.commute)
  from hi assms(1) have dn: "1 < a * 2 ^ Suc k"
    by (simp add: pos_divide_less_eq mult.commute)
  then have dn': "1 / (2 * 2 ^ k) < a" by (simp add: pos_divide_less_eq)
  show ?thesis
  proof (cases "a * 2 ^ k = 1")
    case True
    then have b: "binade a = - int k" using assms by (simp add: binade_def k_def)
    from True k2 have e: "a = 1 / 2 ^ k" by (simp add: eq_divide_eq)
    have "2 powi (- int k) \<le> a" by (simp only: pow2_neg_nat e [symmetric] order_refl)
    moreover have "a < 2 * a" using assms(1) by simp
    then have "a < 2 * 2 powi (- int k)" by (simp only: pow2_neg_nat e [symmetric])
    ultimately show ?thesis by (simp only: b pow2_Suc)
  next
    case neq: False
    then have b: "binade a = - int k - 1" using assms by (simp add: binade_def k_def)
    from neq up have "a * 2 ^ k < 1" by simp
    then have lt: "a < 1 / 2 ^ k" using k2 by (simp add: pos_less_divide_eq)
    have "2 powi (- int k - 1) \<le> a" using dn' by (simp only: pow2_pred pow2_neg_nat) simp
    moreover have "a < 2 powi (- int k - 1 + 1)" using lt by (simp add: pow2_neg_nat)
    ultimately show ?thesis by (simp only: b)
  qed
qed

lemma binade_bounds:
  assumes "0 < a"
  shows "2 powi binade a \<le> a" and "a < 2 powi (binade a + 1)"
  using binade_ge1 [of a] binade_lt1 [of a] assms by (cases "1 \<le> a"; simp)+

lemma binade_unique:
  assumes "2 powi e \<le> a" and "a < 2 powi (e + 1)"
  shows "binade a = e"
proof -
  have "0 < (2::rat) powi e" by simp
  with assms(1) have pos: "0 < a" by linarith
  from binade_bounds [OF pos] have lo: "2 powi binade a \<le> a" and hi: "a < 2 powi (binade a + 1)" .
  from assms(1) hi have "(2::rat) powi e < 2 powi (binade a + 1)" by linarith
  then have "e < binade a + 1" by simp
  moreover from lo assms(2) have "(2::rat) powi binade a < 2 powi (e + 1)" by linarith
  then have "binade a < e + 1" by simp
  ultimately show ?thesis by simp
qed

lemma binade_mono:
  assumes "0 < a" and "a \<le> b"
  shows "binade a \<le> binade b"
proof -
  from assms have pb: "0 < b" by linarith
  from binade_bounds(1) [OF assms(1)] binade_bounds(2) [OF pb] assms(2)
  have "(2::rat) powi binade a < 2 powi (binade b + 1)" by linarith
  then show ?thesis by simp
qed

subsection \<open>Rounding to an integer\<close>

lemma rhe_of_int [simp]: "round_half_even (of_int k) = k"
  by (simp add: round_half_even_def)

lemma rhe_range: "\<lfloor>q\<rfloor> \<le> round_half_even q \<and> round_half_even q \<le> \<lfloor>q\<rfloor> + 1"
  by (simp add: round_half_even_def Let_def)

lemma rhe_mono:
  assumes "q \<le> q'"
  shows "round_half_even q \<le> round_half_even q'"
proof (cases "\<lfloor>q\<rfloor> = \<lfloor>q'\<rfloor>")
  case True
  with assms show ?thesis by (simp add: round_half_even_def Let_def)
next
  case False
  moreover from assms have "\<lfloor>q\<rfloor> \<le> \<lfloor>q'\<rfloor>" by (rule floor_mono)
  ultimately have "\<lfloor>q\<rfloor> + 1 \<le> \<lfloor>q'\<rfloor>" by simp
  with rhe_range [of q] rhe_range [of q'] show ?thesis by linarith
qed

lemma rhe_ge: "of_int k \<le> q \<Longrightarrow> k \<le> round_half_even q"
  using rhe_mono [of "of_int k" q] by simp

lemma rhe_le: "q \<le> of_int k \<Longrightarrow> round_half_even q \<le> k"
  using rhe_mono [of q "of_int k"] by simp

lemma rhe_near: "\<bar>q - of_int (round_half_even q)\<bar> \<le> 1 / 2"
proof -
  have "of_int \<lfloor>q\<rfloor> \<le> q" "q < of_int \<lfloor>q\<rfloor> + 1" by linarith+
  then show ?thesis by (auto simp: round_half_even_def Let_def abs_le_iff)
qed

lemma rhe_tie_even:
  assumes "\<bar>q - of_int (round_half_even q)\<bar> = 1 / 2"
  shows "even (round_half_even q)"
proof -
  define f where "f = \<lfloor>q\<rfloor>"
  define d where "d = q - of_int f"
  have d0: "0 \<le> d" and d1: "d < 1" unfolding d_def f_def by linarith+
  have q: "q = of_int f + d" by (simp add: d_def)
  consider "d < 1 / 2" | "1 / 2 < d" | "d = 1 / 2" by linarith
  then show ?thesis
  proof cases
    case 1
    then have "round_half_even q = f" by (simp add: round_half_even_def Let_def f_def d_def)
    with assms q 1 d0 show ?thesis by simp
  next
    case 2
    then have "round_half_even q = f + 1" by (simp add: round_half_even_def Let_def f_def d_def)
    with assms q 2 d1 show ?thesis by simp
  next
    case 3
    then show ?thesis by (simp add: round_half_even_def Let_def f_def d_def)
  qed
qed

lemma int_of_close:
  fixes k j :: int
  assumes "\<bar>(of_int k :: rat) - of_int j\<bar> < 1"
  shows "k = j"
proof -
  from assms have "(of_int \<bar>k - j\<bar> :: rat) < of_int 1" by simp
  then have "\<bar>k - j\<bar> < 1" by (simp only: of_int_less_iff)
  then show ?thesis by linarith
qed

lemma round_half_away_off_tie:
  assumes "0 \<le> q" and "\<bar>q - of_int (round_half_even q)\<bar> < 1 / 2"
  shows "round_half_away q = round_half_even q"
proof -
  let ?k = "round_half_even q"
  from assms(2) have "of_int ?k \<le> q + 1 / 2" and "q + 1 / 2 < of_int ?k + 1" by linarith+
  then have "\<lfloor>q + 1 / 2\<rfloor> = ?k" by (simp add: floor_unique)
  with assms(1) show ?thesis by (simp add: round_half_away_def)
qed

subsection \<open>Rounding to binary64 is symmetric and monotone\<close>

lemma rne_zero [simp]: "round_nearest_even 0 = 0"
  by (simp add: round_nearest_even_def)

lemma rne_pos:
  "0 < x \<Longrightarrow> round_nearest_even x =
     of_int (round_half_even (x / 2 powi ulp_exp x)) * 2 powi ulp_exp x"
  by (simp add: round_nearest_even_def Let_def)

lemma rne_minus: "round_nearest_even (- x) = - round_nearest_even x"
  by (simp add: round_nearest_even_def Let_def sgn_minus)

lemma rne_nonneg: "0 \<le> x \<Longrightarrow> 0 \<le> round_nearest_even x"
proof (cases "x = 0")
  case True
  then show ?thesis by simp
next
  case False
  assume "0 \<le> x"
  with False have pos: "0 < x" by simp
  then have "0 \<le> x / 2 powi ulp_exp x" by simp
  then have "0 \<le> round_half_even (x / 2 powi ulp_exp x)"
    using rhe_ge [of 0] by simp
  then show ?thesis by (simp add: rne_pos [OF pos])
qed

lemma rne_upper:
  assumes "0 < x"
  shows "round_nearest_even x \<le> 2 powi (ulp_exp x + 53)"
proof -
  let ?u = "(2::rat) powi ulp_exp x"
  have "binade x + 1 \<le> ulp_exp x + 53" by (simp add: ulp_exp_def)
  then have "(2::rat) powi (binade x + 1) \<le> 2 powi (ulp_exp x + 53)" by simp
  with binade_bounds(2) [OF assms] have "x \<le> 2 powi (ulp_exp x + 53)" by linarith
  then have "x / ?u \<le> 2 powi 53" by (simp add: pow2_add pos_divide_le_eq mult.commute)
  then have "x / ?u \<le> of_int (2 ^ 53)" by simp
  then have "round_half_even (x / ?u) \<le> 2 ^ 53" by (rule rhe_le)
  then have "(of_int (round_half_even (x / ?u)) :: rat) \<le> of_int (2 ^ 53)"
    by (simp only: of_int_le_iff)
  then have "of_int (round_half_even (x / ?u)) * ?u \<le> 2 powi 53 * ?u"
    by (simp add: mult_right_mono)
  then show ?thesis by (simp add: rne_pos [OF assms] pow2_add mult.commute)
qed

lemma rne_lower:
  assumes "0 < x" and "- 1022 \<le> binade x"
  shows "2 powi binade x \<le> round_nearest_even x"
proof -
  let ?u = "(2::rat) powi ulp_exp x"
  from assms(2) have ue: "binade x = ulp_exp x + 52" by (simp add: ulp_exp_def)
  with binade_bounds(1) [OF assms(1)] have "2 powi (ulp_exp x + 52) \<le> x" by simp
  then have "2 powi 52 \<le> x / ?u" by (simp add: pow2_add pos_le_divide_eq mult.commute)
  then have "of_int (2 ^ 52) \<le> x / ?u" by simp
  then have "2 ^ 52 \<le> round_half_even (x / ?u)" by (rule rhe_ge)
  then have "(of_int (2 ^ 52) :: rat) \<le> of_int (round_half_even (x / ?u))"
    by (simp only: of_int_le_iff)
  then have "2 powi 52 * ?u \<le> of_int (round_half_even (x / ?u)) * ?u"
    by (simp add: mult_right_mono)
  then show ?thesis by (simp add: rne_pos [OF assms(1)] ue pow2_add mult.commute)
qed

lemma rne_mono_pos:
  assumes "0 < x" and "x \<le> y"
  shows "round_nearest_even x \<le> round_nearest_even y"
proof -
  from assms have py: "0 < y" by linarith
  from binade_mono [OF assms] have bm: "binade x \<le> binade y" .
  then have um: "ulp_exp x \<le> ulp_exp y" by (simp add: ulp_exp_def)
  show ?thesis
  proof (cases "ulp_exp x = ulp_exp y")
    case True
    let ?u = "(2::rat) powi ulp_exp y"
    from assms(2) have "x / ?u \<le> y / ?u" by (simp add: divide_right_mono)
    then have "round_half_even (x / ?u) \<le> round_half_even (y / ?u)" by (rule rhe_mono)
    then have "(of_int (round_half_even (x / ?u)) :: rat) \<le> of_int (round_half_even (y / ?u))"
      by (simp only: of_int_le_iff)
    then have "of_int (round_half_even (x / ?u)) * ?u \<le> of_int (round_half_even (y / ?u)) * ?u"
      by (simp add: mult_right_mono)
    then show ?thesis by (simp add: rne_pos [OF assms(1)] rne_pos [OF py] True)
  next
    case False
    with um have lt: "ulp_exp x < ulp_exp y" by simp
    then have big: "- 1022 \<le> binade y" and ey: "binade y = ulp_exp y + 52"
      unfolding ulp_exp_def by linarith+
    from lt have "ulp_exp x + 53 \<le> binade y" by (simp add: ey)
    then have "(2::rat) powi (ulp_exp x + 53) \<le> 2 powi binade y" by simp
    with rne_upper [OF assms(1)] rne_lower [OF py big] show ?thesis by linarith
  qed
qed

lemma rne_mono:
  assumes "x \<le> y"
  shows "round_nearest_even x \<le> round_nearest_even y"
proof -
  consider "0 < x" | "x \<le> 0" "0 \<le> y" | "y < 0" by linarith
  then show ?thesis
  proof cases
    case 1
    then show ?thesis using assms by (rule rne_mono_pos)
  next
    case 2
    from 2(1) have "0 \<le> round_nearest_even (- x)" by (simp add: rne_nonneg)
    then have "round_nearest_even x \<le> 0" by (simp add: rne_minus)
    with rne_nonneg [OF 2(2)] show ?thesis by linarith
  next
    case 3
    then have "0 < - y" and "- y \<le> - x" using assms by simp_all
    then have "round_nearest_even (- y) \<le> round_nearest_even (- x)" by (rule rne_mono_pos)
    then show ?thesis by (simp add: rne_minus)
  qed
qed

lemma rne_eval:
  assumes "2 powi e \<le> x" and "x < 2 powi (e + 1)" and "- 1022 \<le> e"
  shows "round_nearest_even x = of_int (round_half_even (x / 2 powi (e - 52))) * 2 powi (e - 52)"
proof -
  have "0 < (2::rat) powi e" by simp
  with assms(1) have pos: "0 < x" by linarith
  from binade_unique [OF assms(1,2)] assms(3) have "ulp_exp x = e - 52"
    by (simp add: ulp_exp_def)
  then show ?thesis by (simp add: rne_pos [OF pos])
qed

lemma rne_error_pos:
  assumes "0 < x" and "x < 2 powi (e + 1)" and "- 1022 \<le> e"
  shows "\<bar>round_nearest_even x - x\<bar> \<le> 2 powi (e - 53)"
proof -
  let ?u = "(2::rat) powi ulp_exp x"
  have upos: "0 < ?u" by simp
  from binade_bounds(1) [OF assms(1)] assms(2)
  have "(2::rat) powi binade x < 2 powi (e + 1)" by linarith
  then have "binade x \<le> e" by simp
  with assms(3) have "ulp_exp x \<le> e - 52" by (simp add: ulp_exp_def)
  then have "?u \<le> 2 powi (e - 52)" by simp
  then have half: "?u / 2 \<le> 2 powi (e - 53)"
    using pow2_pred [of "e - 52"] by simp
  let ?q = "x / ?u"
  have x: "x = ?q * ?u" by simp
  have "round_nearest_even x - x = (of_int (round_half_even ?q) - ?q) * ?u"
    by (simp add: rne_pos [OF assms(1)] left_diff_distrib)
  then have "\<bar>round_nearest_even x - x\<bar> = \<bar>?q - of_int (round_half_even ?q)\<bar> * ?u"
    by (simp add: abs_mult abs_minus_commute)
  also have "\<dots> \<le> 1 / 2 * ?u"
    using rhe_near [of ?q] upos by (simp only: mult_right_mono less_imp_le)
  finally show ?thesis using half by simp
qed

lemma rne_error:
  assumes "\<bar>x\<bar> < 2 powi (e + 1)" and "- 1022 \<le> e"
  shows "\<bar>round_nearest_even x - x\<bar> \<le> 2 powi (e - 53)"
proof -
  consider "x = 0" | "0 < x" | "x < 0" by linarith
  then show ?thesis
  proof cases
    case 1
    have "0 \<le> (2::rat) powi (e - 53)" by (simp add: less_imp_le)
    with 1 show ?thesis by simp
  next
    case 2
    with assms show ?thesis by (simp add: rne_error_pos)
  next
    case 3
    then have "0 < - x" and "- x < 2 powi (e + 1)" using assms(1) by simp_all
    from rne_error_pos [OF this assms(2)] show ?thesis
      by (simp add: rne_minus abs_minus_commute)
  qed
qed

subsection \<open>Evaluation of the rounding at given numbers\<close>

text \<open>
  Once the binade of a number is named, its rounding is a matter of integer division;
  \<open>to_double_eval\<close> is the rule by which every concrete value below is computed.
\<close>

lemma floor_rat_numeral [simp]: "\<lfloor>numeral a / numeral b :: rat\<rfloor> = numeral a div numeral b"
  by (metis floor_divide_of_int_eq of_int_numeral)

lemma rne_upper_binade:
  assumes "2 powi e \<le> x" and "x < 2 powi (e + 1)" and "- 1022 \<le> e"
  shows "round_nearest_even x \<le> 2 powi (e + 1)"
proof -
  have "0 < (2::rat) powi e" by simp
  with assms(1) have pos: "0 < x" by linarith
  from binade_unique [OF assms(1,2)] assms(3) have "ulp_exp x + 53 = e + 1"
    by (simp add: ulp_exp_def)
  with rne_upper [OF pos] show ?thesis by simp
qed

lemma to_double_finite:
  assumes "\<bar>round_nearest_even x\<bar> < 2 powi 1024"
  shows "to_double x = Finite (round_nearest_even x)"
proof -
  have p: "(2::rat) ^ 1024 = 2 powi 1024" by (simp only: power_int_numeral)
  from assms have "\<not> 2 powi 1024 \<le> round_nearest_even x"
    and "\<not> round_nearest_even x \<le> - (2 powi 1024)" by linarith+
  then show ?thesis unfolding to_double_def Let_def p by (simp only: if_False)
qed

lemma to_double_eval:
  assumes "2 powi e \<le> x" and "x < 2 powi (e + 1)" and "- 1022 \<le> e" and "e \<le> 1022"
  shows "to_double x = Finite (of_int (round_half_even (x / 2 powi (e - 52))) * 2 powi (e - 52))"
proof -
  have "0 < (2::rat) powi e" by simp
  with assms(1) have pos: "0 < x" by linarith
  from assms(4) have "e + 1 < 1024" by simp
  then have "(2::rat) powi (e + 1) < 2 powi 1024" by (simp only: pow2_less_iff)
  with rne_upper_binade [OF assms(1-3)] have lt: "round_nearest_even x < 2 powi 1024" by linarith
  from rne_nonneg [of x] pos have ge: "0 \<le> round_nearest_even x" by simp
  from lt ge have "\<bar>round_nearest_even x\<bar> < 2 powi 1024" by simp
  then have "to_double x = Finite (round_nearest_even x)" by (rule to_double_finite)
  then show ?thesis by (simp only: rne_eval [OF assms(1-3)])
qed

lemma to_double_zero: "to_double 0 = Finite 0"
  by (simp add: to_double_def)

lemma to_double_minus: "to_double (- x) = fneg (to_double x)"
proof -
  define B :: rat where "B = 2 ^ 1024"
  define r where "r = round_nearest_even x"
  have Bpos: "0 < B" by (simp add: B_def)
  have l: "to_double (- x) = (if B \<le> - r then PInf else if - r \<le> - B then NInf else Finite (- r))"
    by (simp only: to_double_def Let_def rne_minus B_def r_def)
  have r: "to_double x = (if B \<le> r then PInf else if r \<le> - B then NInf else Finite r)"
    by (simp only: to_double_def Let_def B_def r_def)
  consider "B \<le> r" | "r \<le> - B" | "\<not> B \<le> r" "\<not> r \<le> - B" by linarith
  then show ?thesis
  proof cases
    case 1
    with Bpos have "\<not> B \<le> - r" "- r \<le> - B" by linarith+
    with 1 show ?thesis by (simp add: l r)
  next
    case 2
    with Bpos have "B \<le> - r" "\<not> B \<le> r" by linarith+
    with 2 show ?thesis by (simp add: l r)
  next
    case 3
    then have "\<not> B \<le> - r" "\<not> - r \<le> - B" by linarith+
    with 3 show ?thesis by (simp add: l r)
  qed
qed

lemmas rne_simps = round_half_even_def Let_def

lemma rne_2 [simp]: "round_nearest_even 2 = 2"
  by (simp add: rne_eval [where e = 1] rne_simps)

lemma rne_3 [simp]: "round_nearest_even 3 = 3"
  by (simp add: rne_eval [where e = 1] rne_simps)

lemma rne_5_2 [simp]: "round_nearest_even (5 / 2) = 5 / 2"
  by (simp add: rne_eval [where e = 1] rne_simps)

lemma rne_32 [simp]: "round_nearest_even 32 = 32"
  by (simp add: rne_eval [where e = 5] rne_simps)

lemma rne_164_10: "round_nearest_even (82 / 5) = 2308094809027379 / 140737488355328"
  by (simp add: rne_eval [where e = 4] rne_simps)

lemma rne_lit08_3:
  "round_nearest_even (10808639105689191 / 4503599627370496) = 1351079888211149 / 562949953421312"
  by (simp add: rne_eval [where e = 1] rne_simps)

lemma rne_lit08_5_2: "round_nearest_even (18014398509481985 / 9007199254740992) = 2"
  by (simp add: rne_eval [where e = 1] rne_simps)

lemma rne_max_sum:
  "round_nearest_even (9232379236109517 / 562949953421312) = 2308094809027379 / 140737488355328"
  by (simp add: rne_eval [where e = 4] rne_simps)

lemma py_literal_2 [simp]: "py_literal 2 = Finite 2"
  by (simp add: py_literal_def to_double_eval [where e = 1] rne_simps)

lemma py_literal_3 [simp]: "py_literal 3 = Finite 3"
  by (simp add: py_literal_def to_double_eval [where e = 1] rne_simps)

lemma py_literal_4 [simp]: "py_literal 4 = Finite 4"
  by (simp add: py_literal_def to_double_eval [where e = 2] rne_simps)

lemma py_literal_5 [simp]: "py_literal 5 = Finite 5"
  by (simp add: py_literal_def to_double_eval [where e = 2] rne_simps)

lemma py_literal_14 [simp]: "py_literal 14 = Finite 14"
  by (simp add: py_literal_def to_double_eval [where e = 3] rne_simps)

lemma py_literal_5_5 [simp]: "py_literal (11 / 2) = Finite (11 / 2)"
  by (simp add: py_literal_def to_double_eval [where e = 2] rne_simps)

lemma py_literal_0_8 [simp]:
  "py_literal (4 / 5) = Finite (3602879701896397 / 4503599627370496)"
  by (simp add: py_literal_def to_double_eval [where e = "- 1"] rne_simps)

lemma py_literal_8_10:
  "py_literal (8 / 10) = Finite (3602879701896397 / 4503599627370496)"
  by simp

lemma py_literal_9_5 [simp]: "py_literal (19 / 2) = Finite (19 / 2)"
  by (simp add: py_literal_def to_double_minus to_double_eval [where e = "3"] rne_simps)

lemma py_literal_3_5 [simp]: "py_literal (7 / 2) = Finite (7 / 2)"
  by (simp add: py_literal_def to_double_minus to_double_eval [where e = "1"] rne_simps)

lemma py_literal_4_5 [simp]: "py_literal (9 / 2) = Finite (9 / 2)"
  by (simp add: py_literal_def to_double_minus to_double_eval [where e = "2"] rne_simps)

lemma py_literal_8 [simp]: "py_literal 8 = Finite 8"
  by (simp add: py_literal_def to_double_minus to_double_eval [where e = "3"] rne_simps)

lemma py_literal_9 [simp]: "py_literal 9 = Finite 9"
  by (simp add: py_literal_def to_double_minus to_double_eval [where e = "3"] rne_simps)

lemma py_literal_10 [simp]: "py_literal 10 = Finite 10"
  by (simp add: py_literal_def to_double_minus to_double_eval [where e = "3"] rne_simps)

lemma py_literal_9_9 [simp]: "py_literal (99 / 10) = Finite (5573204538870989 / 562949953421312)"
  by (simp add: py_literal_def to_double_minus to_double_eval [where e = "3"] rne_simps)

lemma py_literal_9_6 [simp]: "py_literal (48 / 5) = Finite (5404319552844595 / 562949953421312)"
  by (simp add: py_literal_def to_double_minus to_double_eval [where e = "3"] rne_simps)

lemma py_literal_8_8 [simp]: "py_literal (44 / 5) = Finite (2476979795053773 / 281474976710656)"
  by (simp add: py_literal_def to_double_minus to_double_eval [where e = "3"] rne_simps)

lemma py_literal_10_2 [simp]: "py_literal (51 / 5) = Finite (2871044762448691 / 281474976710656)"
  by (simp add: py_literal_def to_double_minus to_double_eval [where e = "3"] rne_simps)

lemma py_literal_16_4 [simp]: "py_literal (82 / 5) = Finite (2308094809027379 / 140737488355328)"
  by (simp add: py_literal_def to_double_minus to_double_eval [where e = "4"] rne_simps)

lemma py_literal_4_2 [simp]: "py_literal (21 / 5) = Finite (4728779608739021 / 1125899906842624)"
  by (simp add: py_literal_def to_double_minus to_double_eval [where e = "2"] rne_simps)

lemma py_literal_4_3 [simp]: "py_literal (43 / 10) = Finite (4841369599423283 / 1125899906842624)"
  by (simp add: py_literal_def to_double_minus to_double_eval [where e = "2"] rne_simps)

lemma py_literal_4_4 [simp]: "py_literal (22 / 5) = Finite (2476979795053773 / 562949953421312)"
  by (simp add: py_literal_def to_double_minus to_double_eval [where e = "2"] rne_simps)

lemma py_literal_3_6875 [simp]: "py_literal (59 / 16) = Finite (59 / 16)"
  by (simp add: py_literal_def to_double_minus to_double_eval [where e = "1"] rne_simps)

lemma py_literal_4_4375 [simp]: "py_literal (71 / 16) = Finite (71 / 16)"
  by (simp add: py_literal_def to_double_minus to_double_eval [where e = "2"] rne_simps)

lemma py_literal_3_999 [simp]: "py_literal (3999 / 1000) = Finite (9004947454927307 / 2251799813685248)"
  by (simp add: py_literal_def to_double_minus to_double_eval [where e = "1"] rne_simps)

lemma py_literal_14_001 [simp]: "py_literal (14001 / 1000) = Finite (7881862297851789 / 562949953421312)"
  by (simp add: py_literal_def to_double_minus to_double_eval [where e = "3"] rne_simps)

lemma py_literal_1_999 [simp]: "py_literal (1999 / 1000) = Finite (4501347827556811 / 2251799813685248)"
  by (simp add: py_literal_def to_double_minus to_double_eval [where e = "0"] rne_simps)

lemma py_literal_5_501 [simp]: "py_literal (5501 / 1000) = Finite (6193575387541275 / 1125899906842624)"
  by (simp add: py_literal_def to_double_minus to_double_eval [where e = "2"] rne_simps)

lemma py_literal_2_999 [simp]: "py_literal (2999 / 1000) = Finite (6753147641242059 / 2251799813685248)"
  by (simp add: py_literal_def to_double_minus to_double_eval [where e = "1"] rne_simps)

lemma py_literal_5_001 [simp]: "py_literal (5001 / 1000) = Finite (5630625434119963 / 1125899906842624)"
  by (simp add: py_literal_def to_double_minus to_double_eval [where e = "2"] rne_simps)

lemma float_16_4_below: "(2308094809027379 / 140737488355328 :: rat) \<le> 164 / 10"
  by simp

section \<open>Properties of the validation\<close>

lemma validate_measured_calcium:
  "validate_float measured_calcium_field v =
     (case v of
        Omitted \<Rightarrow> Inl (''measured_calcium'', missing)
      | NonNumeric \<Rightarrow> Inl (''measured_calcium'', float_parsing)
      | Num x \<Rightarrow>
          (if \<not> fle x (Finite 14) then Inl (''measured_calcium'', less_than_equal)
           else if \<not> fle (Finite 4) x then Inl (''measured_calcium'', greater_than_equal)
           else Inr x))"
  by (simp add: validate_float_def measured_calcium_field_def fge_def split: form_value.splits)

lemma validate_serum_albumin:
  "validate_float serum_albumin_field v =
     (case v of
        Omitted \<Rightarrow> Inl (''serum_albumin'', missing)
      | NonNumeric \<Rightarrow> Inl (''serum_albumin'', float_parsing)
      | Num x \<Rightarrow>
          (if \<not> fle x (Finite (11 / 2)) then Inl (''serum_albumin'', less_than_equal)
           else if \<not> fle (Finite 2) x then Inl (''serum_albumin'', greater_than_equal)
           else Inr x))"
  by (simp add: validate_float_def serum_albumin_field_def fge_def split: form_value.splits)

lemma validate_normal_albumin:
  "validate_float normal_albumin_field v =
     (case v of
        Omitted \<Rightarrow> Inr (Finite 4)
      | NonNumeric \<Rightarrow> Inl (''normal_albumin'', float_parsing)
      | Num x \<Rightarrow>
          (if \<not> fle x (Finite 5) then Inl (''normal_albumin'', less_than_equal)
           else if \<not> fle (Finite 3) x then Inl (''normal_albumin'', greater_than_equal)
           else Inr x))"
  by (simp add: validate_float_def normal_albumin_field_def fge_def split: form_value.splits)

lemma fle_Finite_left: "fle (Finite a) x = (case x of Finite b \<Rightarrow> a \<le> b | PInf \<Rightarrow> True | _ \<Rightarrow> False)"
  by (cases x) simp_all

lemma fle_Finite_right: "fle x (Finite b) = (case x of Finite a \<Rightarrow> a \<le> b | NInf \<Rightarrow> True | _ \<Rightarrow> False)"
  by (cases x) simp_all

lemma validate_measured_Inr:
  "validate_float measured_calcium_field v = Inr x \<longleftrightarrow>
     (\<exists>m. v = Num (Finite m) \<and> x = Finite m \<and> 4 \<le> m \<and> m \<le> 14)"
  by (cases v; cases x) (auto simp: validate_measured_calcium fle_Finite_left fle_Finite_right
      split: pyfloat.splits)

lemma validate_serum_Inr:
  "validate_float serum_albumin_field v = Inr x \<longleftrightarrow>
     (\<exists>s. v = Num (Finite s) \<and> x = Finite s \<and> 2 \<le> s \<and> s \<le> 11 / 2)"
  by (cases v; cases x) (auto simp: validate_serum_albumin fle_Finite_left fle_Finite_right
      split: pyfloat.splits)

lemma validate_normal_Inr:
  "validate_float normal_albumin_field v = Inr x \<longleftrightarrow>
     (v = Omitted \<and> x = Finite 4 \<or>
      (\<exists>n. v = Num (Finite n) \<and> x = Finite n \<and> 3 \<le> n \<and> n \<le> 5))"
  by (cases v; cases x) (auto simp: validate_normal_albumin fle_Finite_left fle_Finite_right
      split: pyfloat.splits)

lemma validate_input_Inr:
  "validate_input f = Inr data \<longleftrightarrow>
     validate_float measured_calcium_field (form_measured_calcium f) = Inr (measured_calcium data) \<and>
     validate_float serum_albumin_field (form_serum_albumin f) = Inr (serum_albumin data) \<and>
     validate_float normal_albumin_field (form_normal_albumin f) = Inr (normal_albumin data)"
  by (cases data) (auto simp: validate_input_def Let_def split: sum.splits)

lemma validate_input_Inl:
  "validate_input f = Inl e \<Longrightarrow> \<exists>errs. e = ValidationError errs"
  by (auto simp: validate_input_def Let_def split: sum.splits)

lemma validated_ranges:
  assumes "validate_input f = Inr data"
  obtains m s n where "data = \<lparr>measured_calcium = Finite m, serum_albumin = Finite s,
      normal_albumin = Finite n\<rparr>"
    and "4 \<le> m" "m \<le> 14" "2 \<le> s" "s \<le> 11 / 2" "3 \<le> n" "n \<le> 5"
proof -
  from assms have
    m: "validate_float measured_calcium_field (form_measured_calcium f) = Inr (measured_calcium data)"
    and s: "validate_float serum_albumin_field (form_serum_albumin f) = Inr (serum_albumin data)"
    and n: "validate_float normal_albumin_field (form_normal_albumin f) = Inr (normal_albumin data)"
    by (simp_all add: validate_input_Inr)
  from m obtain mv where mv: "measured_calcium data = Finite mv" "4 \<le> mv" "mv \<le> 14"
    unfolding validate_measured_Inr by blast
  from s obtain sv where sv: "serum_albumin data = Finite sv" "2 \<le> sv" "sv \<le> 11 / 2"
    unfolding validate_serum_Inr by blast
  from n obtain nv where nv: "normal_albumin data = Finite nv" "3 \<le> nv" "nv \<le> 5"
    unfolding validate_normal_Inr by auto
  have "data = \<lparr>measured_calcium = Finite mv, serum_albumin = Finite sv,
      normal_albumin = Finite nv\<rparr>"
    using mv(1) sv(1) nv(1) by (cases data) simp
  then show thesis using mv sv nv that by blast
qed

lemma acceptable_form_iff:
  "acceptable_form f \<longleftrightarrow> (\<exists>data. validate_input f = Inr data)"
proof
  assume "acceptable_form f"
  then obtain m s where m: "form_measured_calcium f = Num (Finite m)" "4 \<le> m" "m \<le> 14"
    and s: "form_serum_albumin f = Num (Finite s)" "2 \<le> s" "s \<le> 11 / 2"
    and n: "form_normal_albumin f = Omitted \<or>
        (\<exists>n. form_normal_albumin f = Num (Finite n) \<and> 3 \<le> n \<and> n \<le> 5)"
    by (auto simp: acceptable_form_def in_closed_range_def split: form_value.splits pyfloat.splits)
  from n obtain nv where
    "validate_float normal_albumin_field (form_normal_albumin f) = Inr (Finite nv)"
    unfolding validate_normal_Inr by auto
  with m s have "validate_input f = Inr \<lparr>measured_calcium = Finite m, serum_albumin = Finite s,
      normal_albumin = Finite nv\<rparr>"
    by (simp add: validate_input_Inr validate_measured_Inr validate_serum_Inr)
  then show "\<exists>data. validate_input f = Inr data" ..
next
  assume "\<exists>data. validate_input f = Inr data"
  then obtain data where "validate_input f = Inr data" ..
  then show "acceptable_form f"
    unfolding validate_input_Inr validate_measured_Inr validate_serum_Inr validate_normal_Inr
    by (auto simp: acceptable_form_def in_closed_range_def)
qed

section \<open>The formula on validated input\<close>

text \<open>
  Rounding is monotone, so each step of the formula maps an interval into an interval whose
  end points are the roundings of the exact end points. Starting from the three validated
  ranges: the difference lies in \<open>[-2.5, 3]\<close>, the product with the float \<open>0.8\<close> in
  \<open>[-2, 2.4000000000000004]\<close>, the sum in \<open>[2, 16.4]\<close> (the float \<open>16.4\<close>, just below the
  decimal), and the rounded value is \<open>k/10\<close> as a float with \<open>20 \<le> k \<le> 164\<close>.
\<close>

lemma to_double_bounded:
  assumes "\<bar>x\<bar> \<le> 32"
  shows "to_double x = Finite (round_nearest_even x)"
proof -
  from assms have "x \<le> 32" and "- 32 \<le> x" by linarith+
  from rne_mono [OF this(1)] have up: "round_nearest_even x \<le> 32" by simp
  from rne_mono [OF \<open>- 32 \<le> x\<close>] have lo: "- 32 \<le> round_nearest_even x"
    by (simp add: rne_minus)
  have "(5::int) < 1024" by simp
  then have "(2::rat) powi 5 < 2 powi 1024" by (simp only: pow2_less_iff)
  moreover have "(2::rat) powi 5 = 32" by simp
  ultimately have "(32::rat) < 2 powi 1024" by simp
  with up lo have "\<bar>round_nearest_even x\<bar> < 2 powi 1024" by linarith
  then show ?thesis by (rule to_double_finite)
qed

lemma difference_bounds:
  assumes "3 \<le> n" "n \<le> 5" "2 \<le> s" "s \<le> 11 / 2"
  shows "fsub (Finite n) (Finite s) = Finite (round_nearest_even (n - s))"
    and "- (5 / 2) \<le> round_nearest_even (n - s)"
    and "round_nearest_even (n - s) \<le> 3"
proof -
  from assms have lo: "- (5 / 2) \<le> n - s" and hi: "n - s \<le> 3" by linarith+
  then have "\<bar>n - s\<bar> \<le> 32" by linarith
  then show "fsub (Finite n) (Finite s) = Finite (round_nearest_even (n - s))"
    by (simp add: fsub_def to_double_bounded)
  from rne_mono [OF lo] show "- (5 / 2) \<le> round_nearest_even (n - s)"
    by (simp add: rne_minus)
  from rne_mono [OF hi] show "round_nearest_even (n - s) \<le> 3" by simp
qed

lemma product_bounds:
  assumes "- (5 / 2) \<le> d" "d \<le> 3"
  defines "c \<equiv> 3602879701896397 / 4503599627370496"
  shows "fmul (py_literal (8 / 10)) (Finite d) = Finite (round_nearest_even (c * d))"
    and "- 2 \<le> round_nearest_even (c * d)"
    and "round_nearest_even (c * d) \<le> 1351079888211149 / 562949953421312"
proof -
  have cpos: "0 < c" and c1: "c \<le> 1" by (simp_all add: c_def)
  from assms(1) cpos have lo: "c * - (5 / 2) \<le> c * d" by (simp only: mult_le_cancel_left_pos)
  from assms(2) cpos have hi: "c * d \<le> c * 3" by (simp only: mult_le_cancel_left_pos)
  from lo hi have "\<bar>c * d\<bar> \<le> 32" by (simp add: c_def)
  then show "fmul (py_literal (8 / 10)) (Finite d) = Finite (round_nearest_even (c * d))"
    by (simp add: to_double_bounded c_def)
  have "round_nearest_even (c * - (5 / 2)) = - 2"
    by (simp add: c_def rne_minus rne_lit08_5_2)
  with rne_mono [OF lo] show "- 2 \<le> round_nearest_even (c * d)" by simp
  have "round_nearest_even (c * 3) = 1351079888211149 / 562949953421312"
    by (simp add: c_def rne_lit08_3)
  with rne_mono [OF hi] show "round_nearest_even (c * d) \<le> 1351079888211149 / 562949953421312"
    by simp
qed

lemma sum_bounds:
  assumes "4 \<le> m" "m \<le> 14" "- 2 \<le> p" "p \<le> 1351079888211149 / 562949953421312"
  shows "fadd (Finite m) (Finite p) = Finite (round_nearest_even (m + p))"
    and "2 \<le> round_nearest_even (m + p)"
    and "round_nearest_even (m + p) \<le> 2308094809027379 / 140737488355328"
proof -
  from assms have lo: "2 \<le> m + p" and hi: "m + p \<le> 9232379236109517 / 562949953421312"
    by linarith+
  then have "\<bar>m + p\<bar> \<le> 32" by linarith
  then show "fadd (Finite m) (Finite p) = Finite (round_nearest_even (m + p))"
    by (simp add: to_double_bounded)
  from rne_mono [OF lo] show "2 \<le> round_nearest_even (m + p)" by simp
  from rne_mono [OF hi] show "round_nearest_even (m + p) \<le> 2308094809027379 / 140737488355328"
    by (simp add: rne_max_sum)
qed

lemma round_bounds:
  assumes "2 \<le> c" "c \<le> 2308094809027379 / 140737488355328"
  defines "k \<equiv> round_half_even (c * 10 ^ 1)"
  shows "py_round (Finite c) 1 = Inr (Finite (round_nearest_even (of_int k / 10)))"
    and "20 \<le> k" and "k \<le> 164"
    and "2 \<le> round_nearest_even (of_int k / 10)"
    and "round_nearest_even (of_int k / 10) \<le> 2308094809027379 / 140737488355328"
proof -
  from assms(1) have "of_int 20 \<le> c * 10 ^ 1" by simp
  then show k20: "20 \<le> k" unfolding k_def by (rule rhe_ge)
  from assms(2) have "c * 10 ^ 1 \<le> of_int 164" by simp
  then show k164: "k \<le> 164" unfolding k_def by (rule rhe_le)
  from k20 have "(of_int 20 :: rat) \<le> of_int k" by (simp only: of_int_le_iff)
  then have lo: "2 \<le> (of_int k :: rat) / 10" by simp
  from k164 have "(of_int k :: rat) \<le> of_int 164" by (simp only: of_int_le_iff)
  then have hi: "(of_int k :: rat) / 10 \<le> 82 / 5" by simp
  from rne_mono [OF lo] show "2 \<le> round_nearest_even (of_int k / 10)" by simp
  from rne_mono [OF hi]
  show "round_nearest_even (of_int k / 10) \<le> 2308094809027379 / 140737488355328"
    by (simp add: rne_164_10)
  from lo hi have "\<bar>(of_int k :: rat) / 10\<bar> \<le> 32" by linarith
  then have "to_double (of_int k / 10) = Finite (round_nearest_even (of_int k / 10))"
    by (rule to_double_bounded)
  then show "py_round (Finite c) 1 = Inr (Finite (round_nearest_even (of_int k / 10)))"
    by (simp add: py_round_def k_def)
qed

lemma formula_value:
  assumes "4 \<le> m" "m \<le> 14" "2 \<le> s" "s \<le> 11 / 2" "3 \<le> n" "n \<le> 5"
  defines "d \<equiv> round_nearest_even (n - s)"
  defines "p \<equiv> round_nearest_even (3602879701896397 / 4503599627370496 * d)"
  defines "c \<equiv> round_nearest_even (m + p)"
  shows "fsub (Finite n) (Finite s) = Finite d"
    and "fmul (py_literal (8 / 10)) (Finite d) = Finite p"
    and "fadd (Finite m) (Finite p) = Finite c"
    and "corrected_calcium_formula
           \<lparr>measured_calcium = Finite m, serum_albumin = Finite s, normal_albumin = Finite n\<rparr>
         = Finite c"
    and "2 \<le> c" and "c \<le> 2308094809027379 / 140737488355328"
proof -
  note db = difference_bounds [OF assms(5,6,3,4), folded d_def]
  note pb = product_bounds [OF db(2,3), folded p_def]
  note sb = sum_bounds [OF assms(1,2) pb(2,3), folded c_def]
  show 1: "fsub (Finite n) (Finite s) = Finite d" by (rule db(1))
  show 2: "fmul (py_literal (8 / 10)) (Finite d) = Finite p" by (rule pb(1))
  show 3: "fadd (Finite m) (Finite p) = Finite c" by (rule sb(1))
  show "corrected_calcium_formula
           \<lparr>measured_calcium = Finite m, serum_albumin = Finite s, normal_albumin = Finite n\<rparr>
         = Finite c"
    unfolding corrected_calcium_formula_def by (simp only: CalciumCorrectionInput.simps 1 2 3)
  show "2 \<le> c" by (rule sb(2))
  show "c \<le> 2308094809027379 / 140737488355328" by (rule sb(3))
qed

lemma handler_value:
  assumes "corrected_calcium_formula data = Finite c"
    and "2 \<le> c" and "c \<le> 2308094809027379 / 140737488355328"
  defines "k \<equiv> round_half_even (c * 10 ^ 1)"
  shows "calculate_corrected_calcium data =
           Inr \<lparr>corrected_calcium = Finite (round_nearest_even (of_int k / 10))\<rparr>"
  using round_bounds(1) [OF assms(2,3)]
  by (simp add: calculate_corrected_calcium_def assms(1) k_def)

lemma one_decimal_literal:
  assumes "20 \<le> k" "k \<le> 164"
  shows "py_literal (of_int k / 10) = Finite (round_nearest_even (of_int k / 10))"
proof -
  from assms have "(of_int 20 :: rat) \<le> of_int k" "(of_int k :: rat) \<le> of_int 164"
    by (simp_all only: of_int_le_iff)
  then have "\<bar>(of_int k :: rat) / 10\<bar> \<le> 32" by simp
  then show ?thesis unfolding py_literal_def by (rule to_double_bounded)
qed

lemma post_calculate_validated:
  "validate_input f = Inr data \<Longrightarrow> post_calculate f = calculate_corrected_calcium data"
  by (simp add: post_calculate_def)

lemma validated_response:
  assumes "validate_input f = Inr data"
  obtains c k where "corrected_calcium_formula data = Finite c"
    and "2 \<le> c" and "c \<le> 2308094809027379 / 140737488355328"
    and "k = round_half_even (c * 10)" and "20 \<le> k" and "k \<le> 164"
    and "py_round (Finite c) 1 = Inr (Finite (round_nearest_even (of_int k / 10)))"
    and "post_calculate f =
           Inr \<lparr>corrected_calcium = Finite (round_nearest_even (of_int k / 10))\<rparr>"
    and "2 \<le> round_nearest_even (of_int k / 10)"
    and "round_nearest_even (of_int k / 10) \<le> 2308094809027379 / 140737488355328"
proof -
  from assms obtain m s n where data: "data = \<lparr>measured_calcium = Finite m,
      serum_albumin = Finite s, normal_albumin = Finite n\<rparr>"
    and r: "4 \<le> m" "m \<le> 14" "2 \<le> s" "s \<le> 11 / 2" "3 \<le> n" "n \<le> 5"
    by (rule validated_ranges)
  define c where "c = round_nearest_even (m + round_nearest_even
      (3602879701896397 / 4503599627370496 * round_nearest_even (n - s)))"
  note fv = formula_value [OF r, folded c_def]
  from fv(4) have f: "corrected_calcium_formula data = Finite c" by (simp only: data)
  define k where "k = round_half_even (c * 10)"
  have k': "k = round_half_even (c * 10 ^ 1)" by (simp add: k_def)
  note rb = round_bounds [OF fv(5,6), folded k']
  from handler_value [OF f fv(5,6), folded k']
  have post: "post_calculate f =
      Inr \<lparr>corrected_calcium = Finite (round_nearest_even (of_int k / 10))\<rparr>"
    by (simp only: post_calculate_validated [OF assms])
  show thesis by (rule that [OF f fv(5) fv(6) k_def rb(2) rb(3) rb(1) post rb(4) rb(5)])
qed

lemma accepted_iff: "accepted f \<longleftrightarrow> acceptable_form f"
proof
  assume "accepted f"
  then obtain out where out: "post_calculate f = Inr out"
    by (auto simp: accepted_def split: sum.splits)
  then obtain data where "validate_input f = Inr data"
    by (cases "validate_input f") (auto simp: post_calculate_def)
  then show "acceptable_form f" unfolding acceptable_form_iff ..
next
  assume "acceptable_form f"
  then obtain data where v: "validate_input f = Inr data" unfolding acceptable_form_iff ..
  then obtain out where "post_calculate f = Inr out" by (rule validated_response)
  then show "accepted f" by (simp add: accepted_def)
qed

lemma rejected_iff: "rejected f \<longleftrightarrow> \<not> acceptable_form f"
proof
  assume "rejected f"
  then have "\<not> accepted f" by (auto simp: rejected_def accepted_def split: sum.splits)
  then show "\<not> acceptable_form f" by (simp add: accepted_iff)
next
  assume "\<not> acceptable_form f"
  then have "\<nexists>data. validate_input f = Inr data" by (simp add: acceptable_form_iff)
  then obtain e where e: "validate_input f = Inl e" by (cases "validate_input f") auto
  then obtain errs where "e = ValidationError errs" by (auto dest: validate_input_Inl)
  with e show "rejected f" by (simp add: rejected_def post_calculate_def)
qed

subsection \<open>The float result and the exact value of the formula\<close>

text \<open>
  Each of the three operations is off by at most half the spacing of the floats around its
  result, and the float \<open>0.8\<close> is \<open>1/(5 \<cdot> 2\<^sup>5\<^sup>2)\<close> above \<open>4/5\<close>; together the float value of
  the formula is within \<open>2\<^sup>-\<^sup>4\<^sup>8\<close> of its exact value.
\<close>

lemma pow2_m52: "(2::rat) powi (1 - 53) = 1 / 4503599627370496"
  and pow2_m49: "(2::rat) powi (4 - 53) = 1 / 562949953421312"
  and pow2_2: "(2::rat) powi (1 + 1) = 4"
  and pow2_5: "(2::rat) powi (4 + 1) = 32"
  by (simp_all add: power_int_minus_divide)

lemma formula_accuracy:
  assumes "4 \<le> m" "m \<le> 14" "2 \<le> s" "s \<le> 11 / 2" "3 \<le> n" "n \<le> 5"
  defines "d \<equiv> round_nearest_even (n - s)"
  defines "p \<equiv> round_nearest_even (3602879701896397 / 4503599627370496 * d)"
  defines "c \<equiv> round_nearest_even (m + p)"
  shows "\<bar>c - (m + 4 / 5 * (n - s))\<bar> \<le> 1 / 281474976710656"
proof -
  note db = difference_bounds [OF assms(5,6,3,4), folded d_def]
  note pb = product_bounds [OF db(2,3), folded p_def]
  from assms(1-6) have "\<bar>n - s\<bar> < 2 powi (1 + 1)" unfolding pow2_2 by linarith
  from rne_error [OF this] have e1: "\<bar>d - (n - s)\<bar> \<le> 1 / 4503599627370496"
    unfolding pow2_m52 d_def by simp
  have "3602879701896397 / 4503599627370496 * d \<le> 3602879701896397 / 4503599627370496 * 3"
    and "3602879701896397 / 4503599627370496 * - (5 / 2) \<le> 3602879701896397 / 4503599627370496 * d"
    using db(2,3) by simp_all
  then have "\<bar>3602879701896397 / 4503599627370496 * d\<bar> < 2 powi (1 + 1)"
    unfolding pow2_2 by linarith
  from rne_error [OF this]
  have e2: "\<bar>p - 3602879701896397 / 4503599627370496 * d\<bar> \<le> 1 / 4503599627370496"
    unfolding pow2_m52 p_def by simp
  from assms(1,2) pb(2,3) have "\<bar>m + p\<bar> < 2 powi (4 + 1)" unfolding pow2_5 by linarith
  from rne_error [OF this] have e3: "\<bar>c - (m + p)\<bar> \<le> 1 / 562949953421312"
    unfolding pow2_m49 c_def by simp
  define t1 where "t1 = c - (m + p)"
  define t2 where "t2 = p - 3602879701896397 / 4503599627370496 * d"
  define t3 where "t3 = d / 22517998136852480"
  define t4 where "t4 = 4 / 5 * (d - (n - s))"
  have split: "c - (m + 4 / 5 * (n - s)) = t1 + t2 + t3 + t4"
    unfolding t1_def t2_def t3_def t4_def by (simp add: field_simps)
  from e3 have b1: "\<bar>t1\<bar> \<le> 1 / 562949953421312" by (simp only: t1_def)
  from e2 have b2: "\<bar>t2\<bar> \<le> 1 / 4503599627370496" by (simp only: t2_def)
  from db(2,3) have b3: "\<bar>t3\<bar> \<le> 3 / 22517998136852480" unfolding t3_def by simp
  from e1 have b4: "\<bar>t4\<bar> \<le> 4 / 22517998136852480"
    unfolding t4_def abs_mult by simp
  from b1 b2 b3 b4 show ?thesis unfolding split by linarith
qed

lemma rounded_formula_accuracy:
  assumes "4 \<le> m" "m \<le> 14" "2 \<le> s" "s \<le> 11 / 2" "3 \<le> n" "n \<le> 5"
  shows "\<exists>k. post_calculate
        \<lparr>form_measured_calcium = Num (Finite m), form_serum_albumin = Num (Finite s),
         form_normal_albumin = Num (Finite n)\<rparr>
        = Inr \<lparr>corrected_calcium = py_literal (of_int k / 10)\<rparr> \<and>
      \<bar>exact_formula m s n * 10 - of_int k\<bar> \<le> 1 / 2 + 1 / 2 ^ 44"
proof -
  let ?f = "\<lparr>form_measured_calcium = Num (Finite m), form_serum_albumin = Num (Finite s),
      form_normal_albumin = Num (Finite n)\<rparr>"
  let ?data = "\<lparr>measured_calcium = Finite m, serum_albumin = Finite s,
      normal_albumin = Finite n\<rparr>"
  define c where "c = round_nearest_even (m + round_nearest_even
      (3602879701896397 / 4503599627370496 * round_nearest_even (n - s)))"
  from assms have v: "validate_input ?f = Inr ?data"
    by (simp add: validate_input_Inr validate_measured_Inr validate_serum_Inr
        validate_normal_Inr)
  then obtain c' k where c': "corrected_calcium_formula ?data = Finite c'"
    and kd: "k = round_half_even (c' * 10)" and k: "20 \<le> k" "k \<le> 164"
    and p: "post_calculate ?f =
      Inr \<lparr>corrected_calcium = Finite (round_nearest_even (of_int k / 10))\<rparr>"
    by (rule validated_response)
  from formula_value(4) [OF assms, folded c_def] c' have cc: "c' = c" by simp
  from formula_accuracy [OF assms, folded c_def]
  have acc: "\<bar>c - (m + 4 / 5 * (n - s))\<bar> \<le> 1 / 281474976710656" .
  have near: "\<bar>c * 10 - of_int k\<bar> \<le> 1 / 2" unfolding kd cc by (rule rhe_near)
  define E where "E = exact_formula m s n"
  have e: "E = m + 4 / 5 * (n - s)" by (simp add: E_def exact_formula_def)
  from acc have a1: "\<bar>c - E\<bar> \<le> 1 / 281474976710656" by (simp only: e)
  have "\<bar>E * 10 - of_int k\<bar> \<le> 1 / 2 + 1 / 17592186044416"
    using a1 near unfolding abs_le_iff by linarith
  then have "\<bar>exact_formula m s n * 10 - of_int k\<bar> \<le> 1 / 2 + 1 / 2 ^ 44"
    by (simp add: E_def)
  moreover from p have "post_calculate ?f =
      Inr \<lparr>corrected_calcium = py_literal (of_int k / 10)\<rparr>"
    by (simp only: one_decimal_literal [OF k])
  ultimately show ?thesis by blast
qed

lemma one_decimal_error:
  assumes "20 \<le> k" "k \<le> 164"
  shows "\<bar>round_nearest_even (of_int k / 10) - of_int k / 10\<bar> \<le> 1 / 2 ^ 49"
proof -
  from assms have "(of_int 20 :: rat) \<le> of_int k" "(of_int k :: rat) \<le> of_int 164"
    by (simp_all only: of_int_le_iff)
  then have "\<bar>(of_int k :: rat) / 10\<bar> < 2 powi (4 + 1)" unfolding pow2_5 by simp
  from rne_error [OF this] show ?thesis unfolding pow2_m49 by simp
qed

lemma omitted_normal_albumin:
  "post_calculate (f\<lparr>form_normal_albumin := Omitted\<rparr>) =
   post_calculate (f\<lparr>form_normal_albumin := Num (py_literal 4)\<rparr>)"
  by (simp add: post_calculate_def validate_input_def validate_normal_albumin)

section \<open>Concrete requests\<close>

text \<open>
  The requests named in the specification, the two corners of the input ranges, a request
  whose formula value is an exact tie and one on which binary and decimal arithmetic part,
  each evaluated step by step: the difference, the product, the sum, the rounding; then the
  formula, the handler, the validation of the form and the response.
\<close>

lemma scenario_1_steps:
  shows "fsub (Finite 4) (Finite (7 / 2)) = Finite (1 / 2)"
    and "fmul (py_literal (8 / 10)) (Finite (1 / 2)) = Finite (3602879701896397 / 9007199254740992)"
    and "fadd (Finite (19 / 2)) (Finite (3602879701896397 / 9007199254740992)) = Finite (5573204538870989 / 562949953421312)"
    and "py_round (Finite (5573204538870989 / 562949953421312)) (Suc 0) = Inr (Finite (5573204538870989 / 562949953421312))"
proof -
  show "fsub (Finite 4) (Finite (7 / 2)) = Finite (1 / 2)"
    by (simp add: fsub_def to_double_minus to_double_eval [where e = "- 1"] rne_simps)
  show "fmul (py_literal (8 / 10)) (Finite (1 / 2)) = Finite (3602879701896397 / 9007199254740992)"
    by (simp add: to_double_minus to_double_eval [where e = "- 2"] rne_simps)
  show "fadd (Finite (19 / 2)) (Finite (3602879701896397 / 9007199254740992)) = Finite (5573204538870989 / 562949953421312)"
    by (simp add: to_double_minus to_double_eval [where e = "3"] rne_simps)
  show "py_round (Finite (5573204538870989 / 562949953421312)) (Suc 0) = Inr (Finite (5573204538870989 / 562949953421312))"
    by (simp add: py_round_def to_double_minus to_double_eval [where e = "3"] rne_simps)
qed

lemma scenario_1_formula:
  "corrected_calcium_formula
     \<lparr>measured_calcium = Finite (19 / 2), serum_albumin = Finite (7 / 2),
      normal_albumin = Finite 4\<rparr> =
   Finite (5573204538870989 / 562949953421312)"
  unfolding corrected_calcium_formula_def CalciumCorrectionInput.simps
  by (simp only: scenario_1_steps)

lemma scenario_1_handler:
  "calculate_corrected_calcium
     \<lparr>measured_calcium = Finite (19 / 2), serum_albumin = Finite (7 / 2),
      normal_albumin = Finite 4\<rparr> =
   Inr \<lparr>corrected_calcium = Finite (5573204538870989 / 562949953421312)\<rparr>"
  by (simp add: calculate_corrected_calcium_def scenario_1_formula scenario_1_steps)

lemma scenario_1_validated:
  "validate_input
     \<lparr>form_measured_calcium = Num (py_literal (95 / 10)),
      form_serum_albumin = Num (py_literal (35 / 10)),
      form_normal_albumin = Omitted\<rparr> =
   Inr \<lparr>measured_calcium = Finite (19 / 2), serum_albumin = Finite (7 / 2),
      normal_albumin = Finite 4\<rparr>"
  by (simp add: validate_input_def validate_measured_calcium validate_serum_albumin
      validate_normal_albumin)

lemma scenario_1_response:
  "post_calculate
     \<lparr>form_measured_calcium = Num (py_literal (95 / 10)),
      form_serum_albumin = Num (py_literal (35 / 10)),
      form_normal_albumin = Omitted\<rparr> =
   Inr \<lparr>corrected_calcium = py_literal (99 / 10)\<rparr>"
  by (simp add: post_calculate_def scenario_1_validated [simplified] scenario_1_handler)

lemma scenario_2_steps:
  shows "fsub (Finite 4) (Finite 2) = Finite 2"
    and "fmul (py_literal (8 / 10)) (Finite 2) = Finite (3602879701896397 / 2251799813685248)"
    and "fadd (Finite 8) (Finite (3602879701896397 / 2251799813685248)) = Finite (5404319552844595 / 562949953421312)"
    and "py_round (Finite (5404319552844595 / 562949953421312)) (Suc 0) = Inr (Finite (5404319552844595 / 562949953421312))"
proof -
  show "fsub (Finite 4) (Finite 2) = Finite 2"
    by (simp add: fsub_def to_double_minus to_double_eval [where e = "1"] rne_simps)
  show "fmul (py_literal (8 / 10)) (Finite 2) = Finite (3602879701896397 / 2251799813685248)"
    by (simp add: to_double_minus to_double_eval [where e = "0"] rne_simps)
  show "fadd (Finite 8) (Finite (3602879701896397 / 2251799813685248)) = Finite (5404319552844595 / 562949953421312)"
    by (simp add: to_double_minus to_double_eval [where e = "3"] rne_simps)
  show "py_round (Finite (5404319552844595 / 562949953421312)) (Suc 0) = Inr (Finite (5404319552844595 / 562949953421312))"
    by (simp add: py_round_def to_double_minus to_double_eval [where e = "3"] rne_simps)
qed

lemma scenario_2_formula:
  "corrected_calcium_formula
     \<lparr>measured_calcium = Finite 8, serum_albumin = Finite 2,
      normal_albumin = Finite 4\<rparr> =
   Finite (5404319552844595 / 562949953421312)"
  unfolding corrected_calcium_formula_def CalciumCorrectionInput.simps
  by (simp only: scenario_2_steps)

lemma scenario_2_handler:
  "calculate_corrected_calcium
     \<lparr>measured_calcium = Finite 8, serum_albumin = Finite 2,
      normal_albumin = Finite 4\<rparr> =
   Inr \<lparr>corrected_calcium = Finite (5404319552844595 / 562949953421312)\<rparr>"
  by (simp add: calculate_corrected_calcium_def scenario_2_formula scenario_2_steps)

lemma scenario_2_validated:
  "validate_input
     \<lparr>form_measured_calcium = Num (py_literal 8),
      form_serum_albumin = Num (py_literal 2),
      form_normal_albumin = Num (py_literal 4)\<rparr> =
   Inr \<lparr>measured_calcium = Finite 8, serum_albumin = Finite 2,
      normal_albumin = Finite 4\<rparr>"
  by (simp add: validate_input_def validate_measured_calcium validate_serum_albumin
      validate_normal_albumin)

lemma scenario_2_response:
  "post_calculate
     \<lparr>form_measured_calcium = Num (py_literal 8),
      form_serum_albumin = Num (py_literal 2),
      form_normal_albumin = Num (py_literal 4)\<rparr> =
   Inr \<lparr>corrected_calcium = py_literal (96 / 10)\<rparr>"
  by (simp add: post_calculate_def scenario_2_validated [simplified] scenario_2_handler)

lemma scenario_3_steps:
  shows "fsub (Finite 4) (Finite (11 / 2)) = Finite (- (3 / 2))"
    and "fmul (py_literal (8 / 10)) (Finite (- (3 / 2))) = Finite (- (1351079888211149 / 1125899906842624))"
    and "fadd (Finite 10) (Finite (- (1351079888211149 / 1125899906842624))) = Finite (2476979795053773 / 281474976710656)"
    and "py_round (Finite (2476979795053773 / 281474976710656)) (Suc 0) = Inr (Finite (2476979795053773 / 281474976710656))"
proof -
  show "fsub (Finite 4) (Finite (11 / 2)) = Finite (- (3 / 2))"
    by (simp add: fsub_def to_double_minus to_double_eval [where e = "0"] rne_simps)
  show "fmul (py_literal (8 / 10)) (Finite (- (3 / 2))) = Finite (- (1351079888211149 / 1125899906842624))"
    by (simp add: to_double_minus to_double_eval [where e = "0"] rne_simps)
  show "fadd (Finite 10) (Finite (- (1351079888211149 / 1125899906842624))) = Finite (2476979795053773 / 281474976710656)"
    by (simp add: to_double_minus to_double_eval [where e = "3"] rne_simps)
  show "py_round (Finite (2476979795053773 / 281474976710656)) (Suc 0) = Inr (Finite (2476979795053773 / 281474976710656))"
    by (simp add: py_round_def to_double_minus to_double_eval [where e = "3"] rne_simps)
qed

lemma scenario_3_formula:
  "corrected_calcium_formula
     \<lparr>measured_calcium = Finite 10, serum_albumin = Finite (11 / 2),
      normal_albumin = Finite 4\<rparr> =
   Finite (2476979795053773 / 281474976710656)"
  unfolding corrected_calcium_formula_def CalciumCorrectionInput.simps
  by (simp only: scenario_3_steps)

lemma scenario_3_handler:
  "calculate_corrected_calcium
     \<lparr>measured_calcium = Finite 10, serum_albumin = Finite (11 / 2),
      normal_albumin = Finite 4\<rparr> =
   Inr \<lparr>corrected_calcium = Finite (2476979795053773 / 281474976710656)\<rparr>"
  by (simp add: calculate_corrected_calcium_def scenario_3_formula scenario_3_steps)

lemma scenario_3_validated:
  "validate_input
     \<lparr>form_measured_calcium = Num (py_literal 10),
      form_serum_albumin = Num (py_literal (55 / 10)),
      form_normal_albumin = Num (py_literal 4)\<rparr> =
   Inr \<lparr>measured_calcium = Finite 10, serum_albumin = Finite (11 / 2),
      normal_albumin = Finite 4\<rparr>"
  by (simp add: validate_input_def validate_measured_calcium validate_serum_albumin
      validate_normal_albumin)

lemma scenario_3_response:
  "post_calculate
     \<lparr>form_measured_calcium = Num (py_literal 10),
      form_serum_albumin = Num (py_literal (55 / 10)),
      form_normal_albumin = Num (py_literal 4)\<rparr> =
   Inr \<lparr>corrected_calcium = py_literal (88 / 10)\<rparr>"
  by (simp add: post_calculate_def scenario_3_validated [simplified] scenario_3_handler)

lemma scenario_4_steps:
  shows "fsub (Finite (9 / 2)) (Finite 3) = Finite (3 / 2)"
    and "fmul (py_literal (8 / 10)) (Finite (3 / 2)) = Finite (1351079888211149 / 1125899906842624)"
    and "fadd (Finite 9) (Finite (1351079888211149 / 1125899906842624)) = Finite (2871044762448691 / 281474976710656)"
    and "py_round (Finite (2871044762448691 / 281474976710656)) (Suc 0) = Inr (Finite (2871044762448691 / 281474976710656))"
proof -
  show "fsub (Finite (9 / 2)) (Finite 3) = Finite (3 / 2)"
    by (simp add: fsub_def to_double_minus to_double_eval [where e = "0"] rne_simps)
  show "fmul (py_literal (8 / 10)) (Finite (3 / 2)) = Finite (1351079888211149 / 1125899906842624)"
    by (simp add: to_double_minus to_double_eval [where e = "0"] rne_simps)
  show "fadd (Finite 9) (Finite (1351079888211149 / 1125899906842624)) = Finite (2871044762448691 / 281474976710656)"
    by (simp add: to_double_minus to_double_eval [where e = "3"] rne_simps)
  show "py_round (Finite (2871044762448691 / 281474976710656)) (Suc 0) = Inr (Finite (2871044762448691 / 281474976710656))"
    by (simp add: py_round_def to_double_minus to_double_eval [where e = "3"] rne_simps)
qed

lemma scenario_4_formula:
  "corrected_calcium_formula
     \<lparr>measured_calcium = Finite 9, serum_albumin = Finite 3,
      normal_albumin = Finite (9 / 2)\<rparr> =
   Finite (2871044762448691 / 281474976710656)"
  unfolding corrected_calcium_formula_def CalciumCorrectionInput.simps
  by (simp only: scenario_4_steps)

lemma scenario_4_handler:
  "calculate_corrected_calcium
     \<lparr>measured_calcium = Finite 9, serum_albumin = Finite 3,
      normal_albumin = Finite (9 / 2)\<rparr> =
   Inr \<lparr>corrected_calcium = Finite (2871044762448691 / 281474976710656)\<rparr>"
  by (simp add: calculate_corrected_calcium_def scenario_4_formula scenario_4_steps)

lemma scenario_4_validated:
  "validate_input
     \<lparr>form_measured_calcium = Num (py_literal 9),
      form_serum_albumin = Num (py_literal 3),
      form_normal_albumin = Num (py_literal (45 / 10))\<rparr> =
   Inr \<lparr>measured_calcium = Finite 9, serum_albumin = Finite 3,
      normal_albumin = Finite (9 / 2)\<rparr>"
  by (simp add: validate_input_def validate_measured_calcium validate_serum_albumin
      validate_normal_albumin)

lemma scenario_4_response:
  "post_calculate
     \<lparr>form_measured_calcium = Num (py_literal 9),
      form_serum_albumin = Num (py_literal 3),
      form_normal_albumin = Num (py_literal (45 / 10))\<rparr> =
   Inr \<lparr>corrected_calcium = py_literal (102 / 10)\<rparr>"
  by (simp add: post_calculate_def scenario_4_validated [simplified] scenario_4_handler)

lemma lowest_corner_steps:
  shows "fsub (Finite 3) (Finite (11 / 2)) = Finite (- (5 / 2))"
    and "fmul (py_literal (8 / 10)) (Finite (- (5 / 2))) = Finite (- 2)"
    and "fadd (Finite 4) (Finite (- 2)) = Finite 2"
    and "py_round (Finite 2) (Suc 0) = Inr (Finite 2)"
proof -
  show "fsub (Finite 3) (Finite (11 / 2)) = Finite (- (5 / 2))"
    by (simp add: fsub_def to_double_minus to_double_eval [where e = "1"] rne_simps)
  show "fmul (py_literal (8 / 10)) (Finite (- (5 / 2))) = Finite (- 2)"
    by (simp add: to_double_minus to_double_eval [where e = "1"] rne_simps)
  show "fadd (Finite 4) (Finite (- 2)) = Finite 2"
    by (simp add: to_double_minus to_double_eval [where e = "1"] rne_simps)
  show "py_round (Finite 2) (Suc 0) = Inr (Finite 2)"
    by (simp add: py_round_def to_double_minus to_double_eval [where e = "1"] rne_simps)
qed

lemma lowest_corner_formula:
  "corrected_calcium_formula
     \<lparr>measured_calcium = Finite 4, serum_albumin = Finite (11 / 2),
      normal_albumin = Finite 3\<rparr> =
   Finite 2"
  unfolding corrected_calcium_formula_def CalciumCorrectionInput.simps
  by (simp only: lowest_corner_steps)

lemma lowest_corner_handler:
  "calculate_corrected_calcium
     \<lparr>measured_calcium = Finite 4, serum_albumin = Finite (11 / 2),
      normal_albumin = Finite 3\<rparr> =
   Inr \<lparr>corrected_calcium = Finite 2\<rparr>"
  by (simp add: calculate_corrected_calcium_def lowest_corner_formula lowest_corner_steps)

lemma lowest_corner_validated:
  "validate_input
     \<lparr>form_measured_calcium = Num (py_literal 4),
      form_serum_albumin = Num (py_literal (55 / 10)),
      form_normal_albumin = Num (py_literal 3)\<rparr> =
   Inr \<lparr>measured_calcium = Finite 4, serum_albumin = Finite (11 / 2),
      normal_albumin = Finite 3\<rparr>"
  by (simp add: validate_input_def validate_measured_calcium validate_serum_albumin
      validate_normal_albumin)

lemma lowest_corner_response:
  "post_calculate
     \<lparr>form_measured_calcium = Num (py_literal 4),
      form_serum_albumin = Num (py_literal (55 / 10)),
      form_normal_albumin = Num (py_literal 3)\<rparr> =
   Inr \<lparr>corrected_calcium = py_literal 2\<rparr>"
  by (simp add: post_calculate_def lowest_corner_validated [simplified] lowest_corner_handler)

lemma highest_corner_steps:
  shows "fsub (Finite 5) (Finite 2) = Finite 3"
    and "fmul (py_literal (8 / 10)) (Finite 3) = Finite (1351079888211149 / 562949953421312)"
    and "fadd (Finite 14) (Finite (1351079888211149 / 562949953421312)) = Finite (2308094809027379 / 140737488355328)"
    and "py_round (Finite (2308094809027379 / 140737488355328)) (Suc 0) = Inr (Finite (2308094809027379 / 140737488355328))"
proof -
  show "fsub (Finite 5) (Finite 2) = Finite 3"
    by (simp add: fsub_def to_double_minus to_double_eval [where e = "1"] rne_simps)
  show "fmul (py_literal (8 / 10)) (Finite 3) = Finite (1351079888211149 / 562949953421312)"
    by (simp add: to_double_minus to_double_eval [where e = "1"] rne_simps)
  show "fadd (Finite 14) (Finite (1351079888211149 / 562949953421312)) = Finite (2308094809027379 / 140737488355328)"
    by (simp add: to_double_minus to_double_eval [where e = "4"] rne_simps)
  show "py_round (Finite (2308094809027379 / 140737488355328)) (Suc 0) = Inr (Finite (2308094809027379 / 140737488355328))"
    by (simp add: py_round_def to_double_minus to_double_eval [where e = "4"] rne_simps)
qed

lemma highest_corner_formula:
  "corrected_calcium_formula
     \<lparr>measured_calcium = Finite 14, serum_albumin = Finite 2,
      normal_albumin = Finite 5\<rparr> =
   Finite (2308094809027379 / 140737488355328)"
  unfolding corrected_calcium_formula_def CalciumCorrectionInput.simps
  by (simp only: highest_corner_steps)

lemma highest_corner_handler:
  "calculate_corrected_calcium
     \<lparr>measured_calcium = Finite 14, serum_albumin = Finite 2,
      normal_albumin = Finite 5\<rparr> =
   Inr \<lparr>corrected_calcium = Finite (2308094809027379 / 140737488355328)\<rparr>"
  by (simp add: calculate_corrected_calcium_def highest_corner_formula highest_corner_steps)

lemma highest_corner_validated:
  "validate_input
     \<lparr>form_measured_calcium = Num (py_literal 14),
      form_serum_albumin = Num (py_literal 2),
      form_normal_albumin = Num (py_literal 5)\<rparr> =
   Inr \<lparr>measured_calcium = Finite 14, serum_albumin = Finite 2,
      normal_albumin = Finite 5\<rparr>"
  by (simp add: validate_input_def validate_measured_calcium validate_serum_albumin
      validate_normal_albumin)

lemma highest_corner_response:
  "post_calculate
     \<lparr>form_measured_calcium = Num (py_literal 14),
      form_serum_albumin = Num (py_literal 2),
      form_normal_albumin = Num (py_literal 5)\<rparr> =
   Inr \<lparr>corrected_calcium = py_literal (164 / 10)\<rparr>"
  by (simp add: post_calculate_def highest_corner_validated [simplified] highest_corner_handler)

lemma tie_request_steps:
  shows "fsub (Finite 4) (Finite (59 / 16)) = Finite (5 / 16)"
    and "fmul (py_literal (8 / 10)) (Finite (5 / 16)) = Finite (1 / 4)"
    and "fadd (Finite 4) (Finite (1 / 4)) = Finite (17 / 4)"
    and "py_round (Finite (17 / 4)) (Suc 0) = Inr (Finite (4728779608739021 / 1125899906842624))"
proof -
  show "fsub (Finite 4) (Finite (59 / 16)) = Finite (5 / 16)"
    by (simp add: fsub_def to_double_minus to_double_eval [where e = "- 2"] rne_simps)
  show "fmul (py_literal (8 / 10)) (Finite (5 / 16)) = Finite (1 / 4)"
    by (simp add: to_double_minus to_double_eval [where e = "- 2"] rne_simps)
  show "fadd (Finite 4) (Finite (1 / 4)) = Finite (17 / 4)"
    by (simp add: to_double_minus to_double_eval [where e = "2"] rne_simps)
  show "py_round (Finite (17 / 4)) (Suc 0) = Inr (Finite (4728779608739021 / 1125899906842624))"
    by (simp add: py_round_def to_double_minus to_double_eval [where e = "2"] rne_simps)
qed

lemma tie_request_formula:
  "corrected_calcium_formula
     \<lparr>measured_calcium = Finite 4, serum_albumin = Finite (59 / 16),
      normal_albumin = Finite 4\<rparr> =
   Finite (17 / 4)"
  unfolding corrected_calcium_formula_def CalciumCorrectionInput.simps
  by (simp only: tie_request_steps)

lemma tie_request_handler:
  "calculate_corrected_calcium
     \<lparr>measured_calcium = Finite 4, serum_albumin = Finite (59 / 16),
      normal_albumin = Finite 4\<rparr> =
   Inr \<lparr>corrected_calcium = Finite (4728779608739021 / 1125899906842624)\<rparr>"
  by (simp add: calculate_corrected_calcium_def tie_request_formula tie_request_steps)

lemma tie_request_validated:
  "validate_input
     \<lparr>form_measured_calcium = Num (py_literal 4),
      form_serum_albumin = Num (py_literal (36875 / 10000)),
      form_normal_albumin = Num (py_literal 4)\<rparr> =
   Inr \<lparr>measured_calcium = Finite 4, serum_albumin = Finite (59 / 16),
      normal_albumin = Finite 4\<rparr>"
  by (simp add: validate_input_def validate_measured_calcium validate_serum_albumin
      validate_normal_albumin)

lemma tie_request_response:
  "post_calculate
     \<lparr>form_measured_calcium = Num (py_literal 4),
      form_serum_albumin = Num (py_literal (36875 / 10000)),
      form_normal_albumin = Num (py_literal 4)\<rparr> =
   Inr \<lparr>corrected_calcium = py_literal (42 / 10)\<rparr>"
  by (simp add: post_calculate_def tie_request_validated [simplified] tie_request_handler)

lemma inexact_request_steps:
  shows "fsub (Finite (71 / 16)) (Finite 4) = Finite (7 / 16)"
    and "fmul (py_literal (8 / 10)) (Finite (7 / 16)) = Finite (6305039478318695 / 18014398509481984)"
    and "fadd (Finite 4) (Finite (6305039478318695 / 18014398509481984)) = Finite (2448832297382707 / 562949953421312)"
    and "py_round (Finite (2448832297382707 / 562949953421312)) (Suc 0) = Inr (Finite (4841369599423283 / 1125899906842624))"
proof -
  show "fsub (Finite (71 / 16)) (Finite 4) = Finite (7 / 16)"
    by (simp add: fsub_def to_double_minus to_double_eval [where e = "- 2"] rne_simps)
  show "fmul (py_literal (8 / 10)) (Finite (7 / 16)) = Finite (6305039478318695 / 18014398509481984)"
    by (simp add: to_double_minus to_double_eval [where e = "- 2"] rne_simps)
  show "fadd (Finite 4) (Finite (6305039478318695 / 18014398509481984)) = Finite (2448832297382707 / 562949953421312)"
    by (simp add: to_double_minus to_double_eval [where e = "2"] rne_simps)
  show "py_round (Finite (2448832297382707 / 562949953421312)) (Suc 0) = Inr (Finite (4841369599423283 / 1125899906842624))"
    by (simp add: py_round_def to_double_minus to_double_eval [where e = "2"] rne_simps)
qed

lemma inexact_request_formula:
  "corrected_calcium_formula
     \<lparr>measured_calcium = Finite 4, serum_albumin = Finite 4,
      normal_albumin = Finite (71 / 16)\<rparr> =
   Finite (2448832297382707 / 562949953421312)"
  unfolding corrected_calcium_formula_def CalciumCorrectionInput.simps
  by (simp only: inexact_request_steps)

lemma inexact_request_handler:
  "calculate_corrected_calcium
     \<lparr>measured_calcium = Finite 4, serum_albumin = Finite 4,
      normal_albumin = Finite (71 / 16)\<rparr> =
   Inr \<lparr>corrected_calcium = Finite (4841369599423283 / 1125899906842624)\<rparr>"
  by (simp add: calculate_corrected_calcium_def inexact_request_formula inexact_request_steps)

lemma inexact_request_validated:
  "validate_input
     \<lparr>form_measured_calcium = Num (py_literal 4),
      form_serum_albumin = Num (py_literal 4),
      form_normal_albumin = Num (py_literal (44375 / 10000))\<rparr> =
   Inr \<lparr>measured_calcium = Finite 4, serum_albumin = Finite 4,
      normal_albumin = Finite (71 / 16)\<rparr>"
  by (simp add: validate_input_def validate_measured_calcium validate_serum_albumin
      validate_normal_albumin)

lemma inexact_request_response:
  "post_calculate
     \<lparr>form_measured_calcium = Num (py_literal 4),
      form_serum_albumin = Num (py_literal 4),
      form_normal_albumin = Num (py_literal (44375 / 10000))\<rparr> =
   Inr \<lparr>corrected_calcium = py_literal (43 / 10)\<rparr>"
  by (simp add: post_calculate_def inexact_request_validated [simplified] inexact_request_handler)

section \<open>Claims about the endpoint\<close>

text \<open>
  Claim C1 (the result is the rounded formula), as amended. For measured calcium in
  \<open>[4.0, 14.0]\<close>, serum albumin in \<open>[2.0, 5.5]\<close> and normal albumin in \<open>[3.0, 5.0]\<close> the
  request is answered with the float written \<open>k/10\<close>, where \<open>k\<close> is an integer within
  \<open>1/2 + 2\<^sup>-\<^sup>4\<^sup>4\<close> of ten times the exact value of
  \<open>measured + 0.8 * (normal - serum)\<close>. When ten times the exact value is nearer than
  \<open>1/2 - 2\<^sup>-\<^sup>4\<^sup>4\<close> to an integer, \<open>k\<close> is that integer: the result is the exact value of
  the formula rounded to one decimal place, by round-half-to-even and by
  round-half-away-from-zero alike. At or next to a tie the binary arithmetic of the handler
  decides, and the result can be the other neighbour.
\<close>

theorem corrected_calcium_is_rounded_formula:
  assumes "4 \<le> m" and "m \<le> 14" and "2 \<le> s" and "s \<le> 55 / 10" and "3 \<le> n" and "n \<le> 5"
  shows "\<exists>k. post_calculate
        \<lparr>form_measured_calcium = Num (Finite m), form_serum_albumin = Num (Finite s),
         form_normal_albumin = Num (Finite n)\<rparr>
        = Inr \<lparr>corrected_calcium = py_literal (of_int k / 10)\<rparr> \<and>
      \<bar>exact_formula m s n * 10 - of_int k\<bar> \<le> 1 / 2 + 1 / 2 ^ 44 \<and>
      (\<bar>exact_formula m s n * 10 - of_int (round_half_even (exact_formula m s n * 10))\<bar>
          < 1 / 2 - 1 / 2 ^ 44 \<longrightarrow>
        k = round_half_even (exact_formula m s n * 10) \<and>
        k = round_half_away (exact_formula m s n * 10))"
proof -
  define q where "q = exact_formula m s n * 10"
  from assms have r: "4 \<le> m" "m \<le> 14" "2 \<le> s" "s \<le> 11 / 2" "3 \<le> n" "n \<le> 5"
    by simp_all
  from rounded_formula_accuracy [OF r, folded q_def] obtain k where
    p: "post_calculate
        \<lparr>form_measured_calcium = Num (Finite m), form_serum_albumin = Num (Finite s),
         form_normal_albumin = Num (Finite n)\<rparr>
        = Inr \<lparr>corrected_calcium = py_literal (of_int k / 10)\<rparr>"
    and a: "\<bar>q - of_int k\<bar> \<le> 1 / 2 + 1 / 2 ^ 44" by blast
  have "k = round_half_even q \<and> k = round_half_away q"
    if off: "\<bar>q - of_int (round_half_even q)\<bar> < 1 / 2 - 1 / 2 ^ 44"
  proof -
    from off a have "\<bar>(of_int k :: rat) - of_int (round_half_even q)\<bar> < 1" by linarith
    then have k: "k = round_half_even q" by (rule int_of_close)
    have "(0::rat) < 1 / 2 ^ 44" by simp
    with off have tie: "\<bar>q - of_int (round_half_even q)\<bar> < 1 / 2" by linarith
    have "q = m * 10 + 8 * n - 8 * s" by (simp add: q_def exact_formula_def field_simps)
    with r have "0 \<le> q" by linarith
    from round_half_away_off_tie [OF this tie] k show ?thesis by simp
  qed
  with p a show ?thesis unfolding q_def by blast
qed

theorem corrected_calcium_is_rounded_formula_witness:
  "(4::rat) \<le> 5364913056105103 / 562949953421312 \<and>
   (5364913056105103 / 562949953421312 :: rat) \<le> 14 \<and>
   (2::rat) \<le> 35 / 10 \<and> (35 / 10 :: rat) \<le> 55 / 10 \<and> (3::rat) \<le> 4 \<and> (4::rat) \<le> 5 \<and>
   round_half_even (exact_formula (5364913056105103 / 562949953421312) (35 / 10) 4 * 10) = 99 \<and>
   post_calculate
     \<lparr>form_measured_calcium = Num (Finite (5364913056105103 / 562949953421312)),
      form_serum_albumin = Num (Finite (35 / 10)),
      form_normal_albumin = Num (Finite 4)\<rparr>
     = Inr \<lparr>corrected_calcium = py_literal (99 / 10)\<rparr>"
proof -
  let ?q = "exact_formula (5364913056105103 / 562949953421312) (35 / 10) 4 * 10"
  have q: "?q = 27950465187368139 / 281474976710656" by (simp add: exact_formula_def)
  have k: "round_half_even ?q = 99" unfolding q by (simp add: rne_simps)
  have off: "\<bar>?q - of_int (round_half_even ?q)\<bar> < 1 / 2 - 1 / 2 ^ 44"
    unfolding k unfolding q by simp
  from corrected_calcium_is_rounded_formula
    [of "5364913056105103 / 562949953421312" "35 / 10" 4]
  obtain j where
    "post_calculate
     \<lparr>form_measured_calcium = Num (Finite (5364913056105103 / 562949953421312)),
      form_serum_albumin = Num (Finite (35 / 10)),
      form_normal_albumin = Num (Finite 4)\<rparr>
     = Inr \<lparr>corrected_calcium = py_literal (of_int j / 10)\<rparr>"
    and "\<bar>?q - of_int (round_half_even ?q)\<bar> < 1 / 2 - 1 / 2 ^ 44 \<longrightarrow>
        j = round_half_even ?q \<and> j = round_half_away ?q"
    by auto
  with off k have "post_calculate
     \<lparr>form_measured_calcium = Num (Finite (5364913056105103 / 562949953421312)),
      form_serum_albumin = Num (Finite (35 / 10)),
      form_normal_albumin = Num (Finite 4)\<rparr>
     = Inr \<lparr>corrected_calcium = py_literal (of_int 99 / 10)\<rparr>"
    by simp
  with k show ?thesis by simp
qed

theorem rounded_formula_counterexample:
  "post_calculate
     \<lparr>form_measured_calcium = Num (py_literal 4),
      form_serum_albumin = Num (py_literal 4),
      form_normal_albumin = Num (py_literal (44375 / 10000))\<rparr> =
   Inr \<lparr>corrected_calcium = py_literal (43 / 10)\<rparr> \<and>
   py_literal 4 = Finite 4 \<and>
   py_literal (44375 / 10000) = Finite (44375 / 10000) \<and>
   exact_formula 4 4 (44375 / 10000) = 435 / 100 \<and>
   round_half_even (exact_formula 4 4 (44375 / 10000) * 10) = 44 \<and>
   round_half_away (exact_formula 4 4 (44375 / 10000) * 10) = 44 \<and>
   py_literal (43 / 10) \<noteq> py_literal (44 / 10)"
  using inexact_request_response
  by (simp add: rne_simps exact_formula_def round_half_away_def)

text \<open>
  Claim C2 (validation errors). The endpoint answers with a \<open>ValidationError\<close> exactly
  when the form is not acceptable, that is when some field is missing without a default,
  is not a number, or is not a finite number inside its closed range (\<open>[4.0, 14.0]\<close>,
  \<open>[2.0, 5.5]\<close>, \<open>[3.0, 5.0]\<close>); it produces a result exactly when the form is
  acceptable, so a rejected request has no result; and no other kind of error (the
  \<open>OverflowError\<close> that Python's \<open>round\<close> can raise) ever comes out of it.
\<close>

theorem validation_error_iff:
  "((\<exists>errs. post_calculate f = Inl (ValidationError errs)) \<longleftrightarrow> \<not> acceptable_form f) \<and>
   ((\<exists>out. post_calculate f = Inr out) \<longleftrightarrow> acceptable_form f) \<and>
   post_calculate f \<noteq> Inl OverflowError"
proof -
  have r: "(\<exists>errs. post_calculate f = Inl (ValidationError errs)) \<longleftrightarrow> rejected f"
    by (auto simp: rejected_def split: sum.splits error.splits)
  have a: "(\<exists>out. post_calculate f = Inr out) \<longleftrightarrow> accepted f"
    by (auto simp: accepted_def split: sum.splits)
  have "post_calculate f \<noteq> Inl OverflowError"
  proof
    assume o: "post_calculate f = Inl OverflowError"
    then have "\<not> accepted f" and "\<not> rejected f" by (simp_all add: accepted_def rejected_def)
    then show False by (simp add: accepted_iff rejected_iff)
  qed
  then show ?thesis by (simp add: r a accepted_iff rejected_iff)
qed

text \<open>
  Claim C3 (boundary acceptance). The three ranges are closed at both ends. With the other
  two fields acceptable, a request whose measured calcium is the float \<open>4.0\<close> or
  \<open>14.0\<close> is accepted, and one whose measured calcium is the float \<open>3.999\<close> or
  \<open>14.001\<close> is rejected with a \<open>ValidationError\<close>; likewise serum albumin
  \<open>2.0\<close> and \<open>5.5\<close> are accepted and \<open>1.999\<close> and \<open>5.501\<close> rejected, and normal
  albumin \<open>3.0\<close> and \<open>5.0\<close> are accepted and \<open>2.999\<close> and \<open>5.001\<close> rejected.
\<close>

theorem boundary_acceptance:
  assumes "in_closed_range 4 14 m" and "in_closed_range 2 (55 / 10) s"
    and "n = Omitted \<or> in_closed_range 3 5 n"
  shows
    "accepted \<lparr>form_measured_calcium = Num (py_literal 4), form_serum_albumin = s,
        form_normal_albumin = n\<rparr> \<and>
     accepted \<lparr>form_measured_calcium = Num (py_literal 14), form_serum_albumin = s,
        form_normal_albumin = n\<rparr> \<and>
     rejected \<lparr>form_measured_calcium = Num (py_literal (3999 / 1000)), form_serum_albumin = s,
        form_normal_albumin = n\<rparr> \<and>
     rejected \<lparr>form_measured_calcium = Num (py_literal (14001 / 1000)), form_serum_albumin = s,
        form_normal_albumin = n\<rparr> \<and>
     accepted \<lparr>form_measured_calcium = m, form_serum_albumin = Num (py_literal 2),
        form_normal_albumin = n\<rparr> \<and>
     accepted \<lparr>form_measured_calcium = m, form_serum_albumin = Num (py_literal (55 / 10)),
        form_normal_albumin = n\<rparr> \<and>
     rejected \<lparr>form_measured_calcium = m, form_serum_albumin = Num (py_literal (1999 / 1000)),
        form_normal_albumin = n\<rparr> \<and>
     rejected \<lparr>form_measured_calcium = m, form_serum_albumin = Num (py_literal (5501 / 1000)),
        form_normal_albumin = n\<rparr> \<and>
     accepted \<lparr>form_measured_calcium = m, form_serum_albumin = s,
        form_normal_albumin = Num (py_literal 3)\<rparr> \<and>
     accepted \<lparr>form_measured_calcium = m, form_serum_albumin = s,
        form_normal_albumin = Num (py_literal 5)\<rparr> \<and>
     rejected \<lparr>form_measured_calcium = m, form_serum_albumin = s,
        form_normal_albumin = Num (py_literal (2999 / 1000))\<rparr> \<and>
     rejected \<lparr>form_measured_calcium = m, form_serum_albumin = s,
        form_normal_albumin = Num (py_literal (5001 / 1000))\<rparr>"
  using assms by (simp add: accepted_iff rejected_iff acceptable_form_def in_closed_range_def)

theorem boundary_acceptance_witness:
  "in_closed_range 4 14 (Num (py_literal (95 / 10))) \<and>
   in_closed_range 2 (55 / 10) (Num (py_literal (35 / 10))) \<and>
   accepted \<lparr>form_measured_calcium = Num (py_literal 4),
      form_serum_albumin = Num (py_literal (35 / 10)), form_normal_albumin = Omitted\<rparr> \<and>
   rejected \<lparr>form_measured_calcium = Num (py_literal (3999 / 1000)),
      form_serum_albumin = Num (py_literal (35 / 10)), form_normal_albumin = Omitted\<rparr> \<and>
   accepted \<lparr>form_measured_calcium = Num (py_literal (95 / 10)),
      form_serum_albumin = Num (py_literal (55 / 10)), form_normal_albumin = Omitted\<rparr> \<and>
   rejected \<lparr>form_measured_calcium = Num (py_literal (95 / 10)),
      form_serum_albumin = Num (py_literal (5501 / 1000)), form_normal_albumin = Omitted\<rparr> \<and>
   accepted \<lparr>form_measured_calcium = Num (py_literal (95 / 10)),
      form_serum_albumin = Num (py_literal (35 / 10)),
      form_normal_albumin = Num (py_literal 5)\<rparr> \<and>
   rejected \<lparr>form_measured_calcium = Num (py_literal (95 / 10)),
      form_serum_albumin = Num (py_literal (35 / 10)),
      form_normal_albumin = Num (py_literal (5001 / 1000))\<rparr>"
proof -
  have m: "in_closed_range 4 14 (Num (py_literal (95 / 10)))"
    and s: "in_closed_range 2 (55 / 10) (Num (py_literal (35 / 10)))"
    by (simp_all add: in_closed_range_def)
  have n: "Omitted = Omitted \<or> in_closed_range 3 5 Omitted" by simp
  from boundary_acceptance [OF m s n] m s show ?thesis by simp
qed

text \<open>
  Claim C4 (default substitution). For every acceptable pair of measured calcium and serum
  albumin, the request that omits \<open>normal_albumin\<close> is answered with a corrected calcium,
  and the same request with \<open>normal_albumin\<close> given as the float \<open>4.0\<close> is answered with
  the same corrected calcium.
\<close>

theorem default_substitution:
  assumes "in_closed_range 4 14 m" and "in_closed_range 2 (55 / 10) s"
  shows "\<exists>r.
      post_calculate \<lparr>form_measured_calcium = m, form_serum_albumin = s,
        form_normal_albumin = Omitted\<rparr> = Inr \<lparr>corrected_calcium = Finite r\<rparr> \<and>
      post_calculate \<lparr>form_measured_calcium = m, form_serum_albumin = s,
        form_normal_albumin = Num (py_literal 4)\<rparr> = Inr \<lparr>corrected_calcium = Finite r\<rparr>"
proof -
  let ?f = "\<lparr>form_measured_calcium = m, form_serum_albumin = s,
      form_normal_albumin = Omitted\<rparr>"
  from assms have "acceptable_form ?f" by (simp add: acceptable_form_def)
  then obtain data where "validate_input ?f = Inr data" unfolding acceptable_form_iff ..
  then obtain k where p: "post_calculate ?f =
      Inr \<lparr>corrected_calcium = Finite (round_nearest_even (of_int k / 10))\<rparr>"
    by (rule validated_response)
  from omitted_normal_albumin [of ?f] have "post_calculate ?f =
      post_calculate \<lparr>form_measured_calcium = m, form_serum_albumin = s,
        form_normal_albumin = Num (py_literal 4)\<rparr>"
    by simp
  with p show ?thesis by auto
qed

theorem default_substitution_witness:
  "in_closed_range 4 14 (Num (py_literal (95 / 10))) \<and>
   in_closed_range 2 (55 / 10) (Num (py_literal (35 / 10))) \<and>
   post_calculate
     \<lparr>form_measured_calcium = Num (py_literal (95 / 10)),
      form_serum_albumin = Num (py_literal (35 / 10)),
      form_normal_albumin = Omitted\<rparr> =
   Inr \<lparr>corrected_calcium = py_literal (99 / 10)\<rparr> \<and>
   post_calculate
     \<lparr>form_measured_calcium = Num (py_literal (95 / 10)),
      form_serum_albumin = Num (py_literal (35 / 10)),
      form_normal_albumin = Num (py_literal 4)\<rparr> =
   Inr \<lparr>corrected_calcium = py_literal (99 / 10)\<rparr>"
proof -
  have m: "in_closed_range 4 14 (Num (py_literal (95 / 10)))"
    and s: "in_closed_range 2 (55 / 10) (Num (py_literal (35 / 10)))"
    by (simp_all add: in_closed_range_def)
  from default_substitution [OF m s] scenario_1_response m s show ?thesis by auto
qed

text \<open>
  Claim C6 (totality on validated input). For a request that passed validation every step
  of the computation yields a finite float: the subtraction, the product with \<open>0.8\<close> and
  the sum do not overflow to an infinity or produce a NaN, Python's \<open>round\<close> does not
  raise its \<open>OverflowError\<close>, and the handler and the endpoint return a result whose
  value is finite. (The formula contains no division.)
\<close>

theorem validated_request_always_answered:
  assumes "validate_input f = Inr data"
  shows "\<exists>d p c r.
      fsub (normal_albumin data) (serum_albumin data) = Finite d \<and>
      fmul (py_literal (8 / 10)) (Finite d) = Finite p \<and>
      fadd (measured_calcium data) (Finite p) = Finite c \<and>
      py_round (Finite c) 1 = Inr (Finite r) \<and>
      calculate_corrected_calcium data = Inr \<lparr>corrected_calcium = Finite r\<rparr> \<and>
      post_calculate f = Inr \<lparr>corrected_calcium = Finite r\<rparr>"
proof -
  from assms obtain m s n where data: "data = \<lparr>measured_calcium = Finite m,
      serum_albumin = Finite s, normal_albumin = Finite n\<rparr>"
    and r: "4 \<le> m" "m \<le> 14" "2 \<le> s" "s \<le> 11 / 2" "3 \<le> n" "n \<le> 5"
    by (rule validated_ranges)
  define d where "d = round_nearest_even (n - s)"
  define p where "p = round_nearest_even (3602879701896397 / 4503599627370496 * d)"
  define c where "c = round_nearest_even (m + p)"
  define k where "k = round_half_even (c * 10 ^ 1)"
  note fv = formula_value [OF r, folded d_def, folded p_def, folded c_def]
  from fv(4) have f: "corrected_calcium_formula data = Finite c" by (simp only: data)
  note rb = round_bounds [OF fv(5,6), folded k_def]
  note hv = handler_value [OF f fv(5,6), folded k_def]
  from hv have "post_calculate f =
      Inr \<lparr>corrected_calcium = Finite (round_nearest_even (of_int k / 10))\<rparr>"
    by (simp only: post_calculate_validated [OF assms])
  with fv(1,2,3) rb(1) hv show ?thesis by (simp add: data)
qed

theorem validated_request_always_answered_witness:
  "validate_input
     \<lparr>form_measured_calcium = Num (py_literal (95 / 10)),
      form_serum_albumin = Num (py_literal (35 / 10)),
      form_normal_albumin = Omitted\<rparr> =
   Inr \<lparr>measured_calcium = Finite (19 / 2), serum_albumin = Finite (7 / 2),
      normal_albumin = Finite 4\<rparr> \<and>
   (\<exists>r. post_calculate
     \<lparr>form_measured_calcium = Num (py_literal (95 / 10)),
      form_serum_albumin = Num (py_literal (35 / 10)),
      form_normal_albumin = Omitted\<rparr> = Inr \<lparr>corrected_calcium = Finite r\<rparr>)"
  using validated_request_always_answered [OF scenario_1_validated] scenario_1_validated
  by blast

text \<open>
  Claim C7 (concrete scenarios). With float literals for the inputs and the results:
  measured 9.5, serum 3.5 and normal albumin omitted give 9.9; measured 8.0, serum 2.0,
  normal 4.0 give 9.6; measured 10.0, serum 5.5, normal 4.0 give 8.8; measured 9.0,
  serum 3.0, normal 4.5 give 10.2.
\<close>

theorem concrete_scenarios:
  "post_calculate
     \<lparr>form_measured_calcium = Num (py_literal (95 / 10)),
      form_serum_albumin = Num (py_literal (35 / 10)),
      form_normal_albumin = Omitted\<rparr> =
   Inr \<lparr>corrected_calcium = py_literal (99 / 10)\<rparr> \<and>
   post_calculate
     \<lparr>form_measured_calcium = Num (py_literal 8),
      form_serum_albumin = Num (py_literal 2),
      form_normal_albumin = Num (py_literal 4)\<rparr> =
   Inr \<lparr>corrected_calcium = py_literal (96 / 10)\<rparr> \<and>
   post_calculate
     \<lparr>form_measured_calcium = Num (py_literal 10),
      form_serum_albumin = Num (py_literal (55 / 10)),
      form_normal_albumin = Num (py_literal 4)\<rparr> =
   Inr \<lparr>corrected_calcium = py_literal (88 / 10)\<rparr> \<and>
   post_calculate
     \<lparr>form_measured_calcium = Num (py_literal 9),
      form_serum_albumin = Num (py_literal 3),
      form_normal_albumin = Num (py_literal (45 / 10))\<rparr> =
   Inr \<lparr>corrected_calcium = py_literal (102 / 10)\<rparr>"
  by (simp only: scenario_1_response scenario_2_response scenario_3_response
      scenario_4_response simp_thms)

text \<open>
  Claim C8 (one fractional digit), as amended. The value returned for a validated request is
  the float that the decimal \<open>k/10\<close> is read as, for an integer \<open>k\<close> between 20 and 164: the
  binary64 number nearest to a decimal with one fractional digit, no further from it than
  \<open>2\<^sup>-\<^sup>4\<^sup>9\<close>. It is in general not that decimal itself.
\<close>

theorem one_fractional_digit:
  assumes "validate_input f = Inr data"
  shows "\<exists>k r. 20 \<le> k \<and> k \<le> 164 \<and>
      post_calculate f = Inr \<lparr>corrected_calcium = Finite r\<rparr> \<and>
      Finite r = py_literal (of_int k / 10) \<and>
      \<bar>r - of_int k / 10\<bar> \<le> 1 / 2 ^ 49"
proof -
  from assms obtain c k where k: "20 \<le> k" "k \<le> 164"
    and p: "post_calculate f =
      Inr \<lparr>corrected_calcium = Finite (round_nearest_even (of_int k / 10))\<rparr>"
    by (rule validated_response)
  from one_decimal_literal [OF k] one_decimal_error [OF k] k p show ?thesis by auto
qed

theorem one_fractional_digit_witness:
  "validate_input
     \<lparr>form_measured_calcium = Num (py_literal (95 / 10)),
      form_serum_albumin = Num (py_literal (35 / 10)),
      form_normal_albumin = Omitted\<rparr> =
   Inr \<lparr>measured_calcium = Finite (19 / 2), serum_albumin = Finite (7 / 2),
      normal_albumin = Finite 4\<rparr> \<and>
   (\<exists>k r. 20 \<le> k \<and> k \<le> 164 \<and>
      post_calculate
        \<lparr>form_measured_calcium = Num (py_literal (95 / 10)),
         form_serum_albumin = Num (py_literal (35 / 10)),
         form_normal_albumin = Omitted\<rparr> =
      Inr \<lparr>corrected_calcium = Finite r\<rparr> \<and>
      Finite r = py_literal (of_int k / 10) \<and>
      \<bar>r - of_int k / 10\<bar> \<le> 1 / 2 ^ 49) \<and>
   post_calculate
     \<lparr>form_measured_calcium = Num (py_literal (95 / 10)),
      form_serum_albumin = Num (py_literal (35 / 10)),
      form_normal_albumin = Omitted\<rparr> =
   Inr \<lparr>corrected_calcium = py_literal (of_int 99 / 10)\<rparr>"
  using one_fractional_digit [OF scenario_1_validated] scenario_1_validated scenario_1_response
  by simp

theorem one_fractional_digit_counterexample:
  "post_calculate
     \<lparr>form_measured_calcium = Num (py_literal (95 / 10)),
      form_serum_albumin = Num (py_literal (35 / 10)),
      form_normal_albumin = Omitted\<rparr> =
   Inr \<lparr>corrected_calcium = Finite (5573204538870989 / 562949953421312)\<rparr> \<and>
   \<not> exactly_one_decimal (5573204538870989 / 562949953421312) \<and>
   (5573204538870989 / 562949953421312 :: rat) \<noteq> 99 / 10"
  using scenario_1_response by (simp add: exactly_one_decimal_def)

text \<open>
  Claim C9 (bounded output). For a validated request the value of the formula and the
  rounded result both lie in \<open>[2.0, 16.4]\<close>. The lower bound is reached at measured 4.0,
  serum 5.5, normal 3.0, where formula and result are the float \<open>2.0\<close>; the upper bound at
  measured 14.0, serum 2.0, normal 5.0, where they are the float \<open>16.4\<close>. The result is not
  checked against the range of measured calcium: \<open>2.0\<close> and \<open>16.4\<close> would both be
  rejected as measured calcium.
\<close>

theorem output_bounds:
  "(\<forall>f data. validate_input f = Inr data \<longrightarrow>
      (\<exists>c r. corrected_calcium_formula data = Finite c \<and> 2 \<le> c \<and> c \<le> 164 / 10 \<and>
         post_calculate f = Inr \<lparr>corrected_calcium = Finite r\<rparr> \<and> 2 \<le> r \<and> r \<le> 164 / 10)) \<and>
   corrected_calcium_formula
     \<lparr>measured_calcium = py_literal 4, serum_albumin = py_literal (55 / 10),
      normal_albumin = py_literal 3\<rparr> = py_literal 2 \<and>
   post_calculate
     \<lparr>form_measured_calcium = Num (py_literal 4),
      form_serum_albumin = Num (py_literal (55 / 10)),
      form_normal_albumin = Num (py_literal 3)\<rparr> =
   Inr \<lparr>corrected_calcium = py_literal 2\<rparr> \<and>
   corrected_calcium_formula
     \<lparr>measured_calcium = py_literal 14, serum_albumin = py_literal 2,
      normal_albumin = py_literal 5\<rparr> = py_literal (164 / 10) \<and>
   post_calculate
     \<lparr>form_measured_calcium = Num (py_literal 14),
      form_serum_albumin = Num (py_literal 2),
      form_normal_albumin = Num (py_literal 5)\<rparr> =
   Inr \<lparr>corrected_calcium = py_literal (164 / 10)\<rparr> \<and>
   validate_float measured_calcium_field (Num (py_literal 2)) =
     Inl (''measured_calcium'', greater_than_equal) \<and>
   validate_float measured_calcium_field (Num (py_literal (164 / 10))) =
     Inl (''measured_calcium'', less_than_equal)"
proof -
  have g: "\<exists>c r. corrected_calcium_formula data = Finite c \<and> 2 \<le> c \<and> c \<le> 164 / 10 \<and>
         post_calculate f = Inr \<lparr>corrected_calcium = Finite r\<rparr> \<and> 2 \<le> r \<and> r \<le> 164 / 10"
    if "validate_input f = Inr data" for f data
  proof -
    from that obtain c k where c: "corrected_calcium_formula data = Finite c"
      and cb: "2 \<le> c" "c \<le> 2308094809027379 / 140737488355328"
      and p: "post_calculate f =
        Inr \<lparr>corrected_calcium = Finite (round_nearest_even (of_int k / 10))\<rparr>"
      and rb: "2 \<le> round_nearest_even (of_int k / 10)"
        "round_nearest_even (of_int k / 10) \<le> 2308094809027379 / 140737488355328"
      by (rule validated_response)
    from cb(2) rb(2) float_16_4_below have "c \<le> 164 / 10"
      and "round_nearest_even (of_int k / 10) \<le> 164 / 10" by linarith+
    with c cb(1) p rb(1) show ?thesis by blast
  qed
  then have "\<forall>f data. validate_input f = Inr data \<longrightarrow>
      (\<exists>c r. corrected_calcium_formula data = Finite c \<and> 2 \<le> c \<and> c \<le> 164 / 10 \<and>
         post_calculate f = Inr \<lparr>corrected_calcium = Finite r\<rparr> \<and> 2 \<le> r \<and> r \<le> 164 / 10)"
    by blast
  moreover have "corrected_calcium_formula
     \<lparr>measured_calcium = py_literal 4, serum_albumin = py_literal (55 / 10),
      normal_albumin = py_literal 3\<rparr> = py_literal 2"
    using lowest_corner_formula by simp
  moreover have "corrected_calcium_formula
     \<lparr>measured_calcium = py_literal 14, serum_albumin = py_literal 2,
      normal_albumin = py_literal 5\<rparr> = py_literal (164 / 10)"
    using highest_corner_formula by simp
  moreover have "validate_float measured_calcium_field (Num (py_literal 2)) =
     Inl (''measured_calcium'', greater_than_equal)"
    by (simp add: validate_measured_calcium)
  moreover have "validate_float measured_calcium_field (Num (py_literal (164 / 10))) =
     Inl (''measured_calcium'', less_than_equal)"
    by (simp add: validate_measured_calcium)
  ultimately show ?thesis
    using lowest_corner_response highest_corner_response by blast
qed

theorem output_bounds_witness:
  "validate_input
     \<lparr>form_measured_calcium = Num (py_literal 14),
      form_serum_albumin = Num (py_literal 2),
      form_normal_albumin = Num (py_literal 5)\<rparr> =
   Inr \<lparr>measured_calcium = Finite 14, serum_albumin = Finite 2, normal_albumin = Finite 5\<rparr> \<and>
   (\<exists>c r. corrected_calcium_formula
        \<lparr>measured_calcium = Finite 14, serum_albumin = Finite 2, normal_albumin = Finite 5\<rparr>
        = Finite c \<and> 2 \<le> c \<and> c \<le> 164 / 10 \<and>
      post_calculate
        \<lparr>form_measured_calcium = Num (py_literal 14),
         form_serum_albumin = Num (py_literal 2),
         form_normal_albumin = Num (py_literal 5)\<rparr>
        = Inr \<lparr>corrected_calcium = Finite r\<rparr> \<and> 2 \<le> r \<and> r \<le> 164 / 10)"
  using output_bounds highest_corner_validated by blast

text \<open>
  Claim C10 (rounding convention). The rounding step is Python's \<open>round\<close> on the float
  value \<open>c\<close> of the formula: the result is the float written \<open>k/10\<close> where \<open>k\<close> is an
  integer nearest to \<open>10 c\<close>, and where \<open>10 c\<close> lies exactly half-way between two
  integers \<open>k\<close> is the even one (round-half-to-even, not half-away-from-zero).
\<close>

theorem rounds_half_to_even:
  assumes "validate_input f = Inr data"
  shows "\<exists>c k. corrected_calcium_formula data = Finite c \<and>
      post_calculate f = Inr \<lparr>corrected_calcium = py_literal (of_int k / 10)\<rparr> \<and>
      \<bar>c * 10 - of_int k\<bar> \<le> 1 / 2 \<and>
      (\<bar>c * 10 - of_int k\<bar> = 1 / 2 \<longrightarrow> even k)"
proof -
  from assms obtain c k where c: "corrected_calcium_formula data = Finite c"
    and kd: "k = round_half_even (c * 10)" and k: "20 \<le> k" "k \<le> 164"
    and p: "post_calculate f =
      Inr \<lparr>corrected_calcium = Finite (round_nearest_even (of_int k / 10))\<rparr>"
    by (rule validated_response)
  from p have "post_calculate f = Inr \<lparr>corrected_calcium = py_literal (of_int k / 10)\<rparr>"
    by (simp only: one_decimal_literal [OF k])
  moreover have "\<bar>c * 10 - of_int k\<bar> \<le> 1 / 2" unfolding kd by (rule rhe_near)
  moreover have "\<bar>c * 10 - of_int k\<bar> = 1 / 2 \<longrightarrow> even k"
    unfolding kd by (blast intro: rhe_tie_even)
  ultimately show ?thesis using c by blast
qed

theorem rounds_half_to_even_witness:
  "validate_input
     \<lparr>form_measured_calcium = Num (py_literal 4),
      form_serum_albumin = Num (py_literal (36875 / 10000)),
      form_normal_albumin = Num (py_literal 4)\<rparr> =
   Inr \<lparr>measured_calcium = Finite 4, serum_albumin = Finite (59 / 16),
      normal_albumin = Finite 4\<rparr> \<and>
   corrected_calcium_formula
     \<lparr>measured_calcium = Finite 4, serum_albumin = Finite (59 / 16),
      normal_albumin = Finite 4\<rparr> = Finite (425 / 100) \<and>
   post_calculate
     \<lparr>form_measured_calcium = Num (py_literal 4),
      form_serum_albumin = Num (py_literal (36875 / 10000)),
      form_normal_albumin = Num (py_literal 4)\<rparr> =
   Inr \<lparr>corrected_calcium = py_literal (of_int 42 / 10)\<rparr> \<and>
   \<bar>(425 / 100 :: rat) * 10 - of_int 42\<bar> = 1 / 2 \<and> even (42 :: int) \<and>
   py_literal (of_int 42 / 10) \<noteq> py_literal (of_int 43 / 10)"
proof -
  from rounds_half_to_even [OF tie_request_validated]
  obtain c k where "corrected_calcium_formula
     \<lparr>measured_calcium = Finite 4, serum_albumin = Finite (59 / 16),
      normal_albumin = Finite 4\<rparr> = Finite c"
    and n: "\<bar>c * 10 - of_int k\<bar> \<le> 1 / 2"
    and t: "\<bar>c * 10 - of_int k\<bar> = 1 / 2 \<longrightarrow> even k"
    and p: "post_calculate
     \<lparr>form_measured_calcium = Num (py_literal 4),
      form_serum_albumin = Num (py_literal (36875 / 10000)),
      form_normal_albumin = Num (py_literal 4)\<rparr> =
      Inr \<lparr>corrected_calcium = py_literal (of_int k / 10)\<rparr>"
    by blast
  then have c: "c = 17 / 4" by (simp add: tie_request_formula)
  from n have "42 \<le> k" "k \<le> 43" unfolding c by linarith+
  then consider "k = 42" | "k = 43" by linarith
  then have "k = 42"
  proof cases
    case 1 then show ?thesis .
  next
    case 2
    with t c have "even (43::int)" by simp
    then show ?thesis by simp
  qed
  with p show ?thesis
    using tie_request_validated tie_request_formula by simp
qed

end
